theory Spec2Isabelle
  imports Main "HOL-Library.AList"
begin

section \<open>Python values and exceptions\<close>

text \<open>
  The backend is Python. The values it moves around are what \<open>json.loads\<close> produces and
  what the endpoints return: \<open>None\<close>, booleans, integers, strings, lists and dicts with string
  keys. A dict is an association list in insertion order (keys distinct in every dict Python
  builds). Floating-point numbers are left out of the value type. A Python \<open>str\<close> and a
  Python \<open>bytes\<close> are both a \<open>string\<close> here.
\<close>

datatype json =
    JNull
  | JBool bool
  | JInt int
  | JStr string
  | JArr "json list"
  | JObj "(string \<times> json) list"

text \<open>
  Exceptions are values. An exception has a class and the text \<open>str(exc)\<close> gives. Only the
  builtin classes the code raises or catches are named; \<open>LibraryError\<close> stands for any other
  \<open>Exception\<close> subclass a library raises (for instance \<open>httpx.HTTPStatusError\<close>), named
  by its argument. \<open>KeyError\<close> is a subclass of \<open>LookupError\<close>, as in Python. The text of an
  exception the interpreter raises itself is abbreviated to the key, attribute or type at fault.
\<close>

datatype exc_class =
    PermissionError
  | LookupError
  | KeyError
  | ValueError
  | TypeError
  | AttributeError
  | LibraryError string

datatype error = Exc exc_class string

fun exc_str :: "error \<Rightarrow> string" where
  "exc_str (Exc cls msg) = msg"

fun isinstance :: "error \<Rightarrow> exc_class \<Rightarrow> bool" where
  "isinstance (Exc cls msg) c = (cls = c \<or> (cls = KeyError \<and> c = LookupError))"

definition ebind :: "error + 'a \<Rightarrow> ('a \<Rightarrow> error + 'b) \<Rightarrow> error + 'b" where
  "ebind m f = (case m of Inl e \<Rightarrow> Inl e | Inr x \<Rightarrow> f x)"

text \<open>Evaluating a list of expressions from left to right: the first one that raises wins.\<close>

fun sequence :: "(error + 'a) list \<Rightarrow> error + 'a list" where
  "sequence [] = Inr []"
| "sequence (m # ms) = ebind m (\<lambda>x. ebind (sequence ms) (\<lambda>xs. Inr (x # xs)))"

subsection \<open>The operations of Python the code applies to these values\<close>

fun type_name :: "json \<Rightarrow> string" where
  "type_name JNull = ''NoneType''"
| "type_name (JBool b) = ''bool''"
| "type_name (JInt i) = ''int''"
| "type_name (JStr s) = ''str''"
| "type_name (JArr xs) = ''list''"
| "type_name (JObj kvs) = ''dict''"

text \<open>\<open>d.get(k, default)\<close>: only a dict has the method.\<close>

fun py_get :: "json \<Rightarrow> string \<Rightarrow> json \<Rightarrow> error + json" where
  "py_get (JObj kvs) k dflt = Inr (case map_of kvs k of Some v \<Rightarrow> v | None \<Rightarrow> dflt)"
| "py_get v k dflt = Inl (Exc AttributeError (type_name v))"

text \<open>\<open>v[k]\<close> with a string \<open>k\<close>: a dict raises KeyError on a missing key, every other value
  raises TypeError.\<close>

fun py_index :: "json \<Rightarrow> string \<Rightarrow> error + json" where
  "py_index (JObj kvs) k =
     (case map_of kvs k of Some v \<Rightarrow> Inr v | None \<Rightarrow> Inl (Exc KeyError k))"
| "py_index v k = Inl (Exc TypeError (type_name v))"

text \<open>\<open>v[:n]\<close> for a non-negative literal \<open>n\<close>: strings and lists are sliced, nothing else is
  (a dict raises TypeError up to Python 3.11 and KeyError from 3.12 on; the model has the
  former).\<close>

fun py_prefix :: "json \<Rightarrow> nat \<Rightarrow> error + json" where
  "py_prefix (JStr s) n = Inr (JStr (take n s))"
| "py_prefix (JArr xs) n = Inr (JArr (take n xs))"
| "py_prefix v n = Inl (Exc TypeError (type_name v))"

text \<open>\<open>for x in v\<close>: a list yields its elements, a string its characters, a dict its keys.\<close>

fun py_iter :: "json \<Rightarrow> error + json list" where
  "py_iter (JArr xs) = Inr xs"
| "py_iter (JStr s) = Inr (map (\<lambda>c. JStr [c]) s)"
| "py_iter (JObj kvs) = Inr (map (\<lambda>kv. JStr (fst kv)) kvs)"
| "py_iter v = Inl (Exc TypeError (type_name v))"

text \<open>Truth value of a value, as \<open>if v\<close> and \<open>not v\<close> test it.\<close>

fun py_truthy :: "json \<Rightarrow> bool" where
  "py_truthy JNull = False"
| "py_truthy (JBool b) = b"
| "py_truthy (JInt i) = (i \<noteq> 0)"
| "py_truthy (JStr s) = (s \<noteq> [])"
| "py_truthy (JArr xs) = (xs \<noteq> [])"
| "py_truthy (JObj kvs) = (kvs \<noteq> [])"

text \<open>\<open>d[k] = v\<close> on a dict: an existing key keeps its place, a new key goes last.\<close>

definition dict_set :: "string \<Rightarrow> json \<Rightarrow> (string \<times> json) list \<Rightarrow> (string \<times> json) list" where
  "dict_set k v kvs = AList.update k v kvs"

text \<open>\<open>xs[:cap]\<close> for an integer \<open>cap\<close>: a negative bound counts from the end.\<close>

definition py_slice_to :: "'a list \<Rightarrow> int \<Rightarrow> 'a list" where
  "py_slice_to xs cap = (if 0 \<le> cap then take (nat cap) xs else take (length xs - nat (- cap)) xs)"

definition endswith :: "string \<Rightarrow> string \<Rightarrow> bool" where
  "endswith s suf = (length suf \<le> length s \<and> drop (length s - length suf) s = suf)"

definition startswith :: "string \<Rightarrow> string \<Rightarrow> bool" where
  "startswith s pre = (take (length pre) s = pre)"

text \<open>Decimal text of an integer, as an f-string prints it.\<close>

definition digit_char :: "nat \<Rightarrow> char" where
  "digit_char d = ''0123456789'' ! d"

fun str_nat :: "nat \<Rightarrow> string" where
  "str_nat n = (if n < 10 then [digit_char n] else str_nat (n div 10) @ [digit_char (n mod 10)])"

definition str_int :: "int \<Rightarrow> string" where
  "str_int i = (if i < 0 then CHR ''-'' # str_nat (nat (- i)) else str_nat (nat i))"

subsection \<open>The libraries behind the code\<close>

text \<open>
  The code calls into the Python runtime and into libraries that are not part of the
  repository. What they compute is a parameter of the model, so that every theorem holds
  whatever they do:
  \<^item> \<open>format_value\<close>: the text an f-string gives for a value (\<open>str(v)\<close>);
  \<^item> \<open>json_loads\<close>: \<open>json.loads\<close> on the bytes of an archive entry;
  \<^item> \<open>zip_open\<close>: \<open>zipfile.ZipFile(io.BytesIO(bytes))\<close>, giving the archive's name list
    and its \<open>read\<close> method;
  \<^item> \<open>decode_replace\<close>: \<open>bytes.decode("utf-8", errors="replace")\<close>;
  \<^item> \<open>sort_desc\<close>: \<open>list.sort(key=..., reverse=True)\<close> with the key function given;
  \<^item> \<open>str_strip\<close>: \<open>str.strip()\<close>;
  \<^item> \<open>pydantic_model\<close>: building a response model of the name given from its fields, which
    validates their types and raises \<open>ValidationError\<close>.
\<close>

record zip_file =
  namelist :: "string list"
  read_entry :: "string \<Rightarrow> error + string"

record pylib =
  format_value :: "json \<Rightarrow> string"
  json_loads :: "string \<Rightarrow> error + json"
  zip_open :: "string \<Rightarrow> error + zip_file"
  decode_replace :: "string \<Rightarrow> error + string"
  sort_desc :: "(json \<Rightarrow> error + json) \<Rightarrow> json list \<Rightarrow> error + json list"
  str_strip :: "string \<Rightarrow> string"
  pydantic_model :: "string \<Rightarrow> (string \<times> json) list \<Rightarrow> error + json"

section \<open>The GitHub client (backend/github\_client.py)\<close>

text \<open>
  The HTTP session is a function from requests to what \<open>await self._client.get(...)\<close> does:
  it raises, or it returns a response. A response is what the code reads of it: the status
  code, what \<open>raise_for_status()\<close> does (\<open>None\<close>: it returns), what \<open>json()\<close> does, and
  the body bytes.
\<close>

record request =
  path :: string
  params :: "(string \<times> json) list option"
  follow_redirects :: bool

record response =
  status_code :: int
  raise_for_status :: "error option"
  json_body :: "error + json"
  content :: string

record github_client =
  owner :: string
  repo :: string
  http_get :: "request \<Rightarrow> error + response"

definition repo_prefix :: "github_client \<Rightarrow> string" where
  "repo_prefix c = ''/repos/'' @ owner c @ ''/'' @ repo c"

text \<open>The messages of the three exceptions \<open>_get_json\<close> raises. The dash of the first, a
  character outside Latin-1, is written as its UTF-8 bytes.\<close>

definition em_dash :: string where
  "em_dash = [CHR 0xE2, CHR 0x80, CHR 0x94]"

definition msg_invalid_token :: string where
  "msg_invalid_token =
     ''Invalid token '' @ em_dash @ '' check that your PAT is correct and not expired.''"

definition msg_access_denied :: string where
  "msg_access_denied =
     ''Access denied (403). Your token may lack the required scope. '' @
     ''Classic PATs need 'repo' scope; fine-grained PATs need '' @
     '''Actions: Read' and 'Contents: Read' permissions for this repository.''"

definition msg_repo_not_found :: string where
  "msg_repo_not_found = ''Repository not found or not accessible with this token.''"

definition get_json :: "github_client \<Rightarrow> string \<Rightarrow> (string \<times> json) list option \<Rightarrow> error + json" where
  "get_json c p ps =
     ebind (http_get c \<lparr>path = p, params = ps, follow_redirects = False\<rparr>) (\<lambda>r.
       if status_code r = 401 then Inl (Exc PermissionError msg_invalid_token)
       else if status_code r = 403 then Inl (Exc PermissionError msg_access_denied)
       else if status_code r = 404 then Inl (Exc LookupError msg_repo_not_found)
       else (case raise_for_status r of
               Some e \<Rightarrow> Inl e
             | None \<Rightarrow> json_body r))"

definition validate :: "github_client \<Rightarrow> error + json" where
  "validate c = get_json c (repo_prefix c) None"

text \<open>One entry of the list comprehension of \<open>get_runs\<close>: the dict display evaluates its
  values in the order written.\<close>

definition actor_field :: "json \<Rightarrow> string \<Rightarrow> json \<Rightarrow> error + json" where
  "actor_field r k dflt = ebind (py_get r ''actor'' (JObj [])) (\<lambda>a. py_get a k dflt)"

definition run_summary :: "json \<Rightarrow> error + json" where
  "run_summary r =
     ebind (sequence
       [py_index r ''id'',
        py_index r ''status'',
        py_index r ''conclusion'',
        py_index r ''created_at'',
        py_index r ''updated_at'',
        py_index r ''html_url'',
        ebind (py_index r ''head_sha'') (\<lambda>s. py_prefix s 7),
        py_index r ''display_title'',
        py_index r ''run_number'',
        actor_field r ''login'' (JStr ''unknown''),
        actor_field r ''avatar_url'' (JStr '''')])
       (\<lambda>vs. Inr (JObj (zip
          [''id'', ''status'', ''conclusion'', ''created_at'', ''updated_at'', ''html_url'',
           ''head_sha'', ''display_title'', ''run_number'', ''actor'', ''actor_avatar''] vs)))"

text \<open>The runs the upstream listing holds (the first two statements of \<open>get_runs\<close>): the
  page size and the status filter travel as query parameters.\<close>

definition get_runs_listing :: "pylib \<Rightarrow> github_client \<Rightarrow> json \<Rightarrow> int \<Rightarrow> error + json list" where
  "get_runs_listing L c workflow_id per_page =
     ebind (get_json c
              (repo_prefix c @ ''/actions/workflows/'' @ format_value L workflow_id @ ''/runs'')
              (Some [(''per_page'', JInt per_page), (''status'', JStr ''completed'')])) (\<lambda>data.
     ebind (py_get data ''workflow_runs'' (JArr [])) py_iter)"

definition get_runs :: "pylib \<Rightarrow> github_client \<Rightarrow> json \<Rightarrow> int \<Rightarrow> error + json list" where
  "get_runs L c workflow_id per_page =
     ebind (get_runs_listing L c workflow_id per_page) (\<lambda>runs. sequence (map run_summary runs))"

subsection \<open>Artifact retrieval\<close>

text \<open>
  The loop over the artifact listing of \<open>get_artifact\<close>: every name met is appended to
  \<open>available\<close>; the loop stops at the first artifact with the requested name and takes its
  id. \<open>JNull\<close> is Python's \<open>None\<close>, the initial value of \<open>artifact_id\<close>.
\<close>

fun find_artifact :: "string \<Rightarrow> json list \<Rightarrow> json list \<Rightarrow> error + (json \<times> json list)" where
  "find_artifact artifact_name [] available = Inr (JNull, available)"
| "find_artifact artifact_name (a # as) available =
     ebind (py_index a ''name'') (\<lambda>nm.
       if nm = JStr artifact_name
       then ebind (py_index a ''id'') (\<lambda>i. Inr (i, available @ [nm]))
       else find_artifact artifact_name as (available @ [nm]))"

text \<open>\<open>name.rsplit("/", 1)[-1] if "/" in name else name\<close>\<close>

definition basename :: "string \<Rightarrow> string" where
  "basename name =
     (if CHR ''/'' \<in> set name then rev (takeWhile (\<lambda>c. c \<noteq> CHR ''/'') (rev name)) else name)"

text \<open>
  \<open>_merge_cast_impact\<close>: the first entry whose base name starts with
  \<open>cast-impact-analysis\<close> is read and decoded; the assignment \<open>result[...] = content\<close>
  raises TypeError when \<open>result\<close> is not a dict. Whatever is raised inside the \<open>try\<close> is
  dropped, and the loop ends at that entry either way.
\<close>

definition merge_cast_impact :: "pylib \<Rightarrow> zip_file \<Rightarrow> json \<Rightarrow> json" where
  "merge_cast_impact L zf result =
     (case List.find (\<lambda>name. startswith (basename name) ''cast-impact-analysis'') (namelist zf) of
        None \<Rightarrow> result
      | Some name \<Rightarrow>
          (case ebind (read_entry zf name) (decode_replace L) of
             Inl e \<Rightarrow> result
           | Inr text \<Rightarrow>
               (case result of
                  JObj kvs \<Rightarrow> JObj (dict_set ''cast_impact_analysis'' (JStr text) kvs)
                | _ \<Rightarrow> result)))"

definition json_candidates :: "string list" where
  "json_candidates = [''gatekeeper-consolidated.json'', ''council-results.json'']"

text \<open>The nested loops over candidates and names: the first name ending with the first
  candidate that any name ends with.\<close>

fun find_candidate :: "string list \<Rightarrow> string list \<Rightarrow> string option" where
  "find_candidate [] names = None"
| "find_candidate (candidate # cs) names =
     (case List.find (\<lambda>name. endswith name candidate) names of
        Some name \<Rightarrow> Some name
      | None \<Rightarrow> find_candidate cs names)"

text \<open>\<open>result = json.loads(zf.read(name)); result = self._merge_cast_impact(zf, result)\<close>\<close>

definition load_entry :: "pylib \<Rightarrow> zip_file \<Rightarrow> string \<Rightarrow> error + json" where
  "load_entry L zf name =
     ebind (read_entry zf name) (\<lambda>bytes.
     ebind (json_loads L bytes) (\<lambda>result.
     Inr (merge_cast_impact L zf result)))"

text \<open>
  \<open>get_artifact\<close> follows the three steps its comments number. Which entry step 3 takes:
  a known file name first, any \<open>.json\<close> entry otherwise.
\<close>

definition select_entry :: "string list \<Rightarrow> string option" where
  "select_entry names =
     (case find_candidate json_candidates names of
        Some name \<Rightarrow> Some name
      | None \<Rightarrow> List.find (\<lambda>name. endswith name ''.json'') names)"

text \<open>Step 3, extract JSON from zip, from the opened archive on.\<close>

definition extract_json :: "pylib \<Rightarrow> zip_file \<Rightarrow> error + json" where
  "extract_json L zf =
     (case select_entry (namelist zf) of
        Some name \<Rightarrow> load_entry L zf name
      | None \<Rightarrow> Inr (JObj [(''error'', JStr ''No JSON found in artifact'')]))"

text \<open>Step 1, list artifacts for the run: what the loop iterates over.\<close>

definition artifact_listing :: "github_client \<Rightarrow> int \<Rightarrow> error + json list" where
  "artifact_listing c run_id =
     ebind (get_json c (repo_prefix c @ ''/actions/runs/'' @ str_int run_id @ ''/artifacts'') None)
       (\<lambda>data.
     ebind (py_get data ''artifacts'' (JArr [])) py_iter)"

text \<open>Step 2, download zip, and the opening of the archive.\<close>

definition download_zip :: "pylib \<Rightarrow> github_client \<Rightarrow> json \<Rightarrow> error + zip_file" where
  "download_zip L c artifact_id =
     ebind (http_get c
              \<lparr>path = repo_prefix c @ ''/actions/artifacts/'' @ format_value L artifact_id
                        @ ''/zip'',
               params = None, follow_redirects = True\<rparr>) (\<lambda>r.
     case raise_for_status r of
       Some e \<Rightarrow> Inl e
     | None \<Rightarrow> zip_open L (content r))"

definition not_found_descriptor :: "string \<Rightarrow> json list \<Rightarrow> json" where
  "not_found_descriptor artifact_name available =
     JObj [(''error'', JStr (''Artifact '' @ [CHR 0x27] @ artifact_name @ [CHR 0x27]
                             @ '' not found'')),
           (''available'', JArr available)]"

definition get_artifact :: "pylib \<Rightarrow> github_client \<Rightarrow> int \<Rightarrow> string \<Rightarrow> error + json" where
  "get_artifact L c run_id artifact_name =
     ebind (artifact_listing c run_id) (\<lambda>artifacts.
     ebind (find_artifact artifact_name artifacts []) (\<lambda>(artifact_id, available).
       if artifact_id = JNull then Inr (not_found_descriptor artifact_name available)
       else ebind (download_zip L c artifact_id) (extract_json L)))"

section \<open>The session fetcher (backend/copilot\_fetcher.py)\<close>

text \<open>
  The Copilot SDK client is what its calls do: \<open>start()\<close> and \<open>stop()\<close> return or raise,
  the \<open>session.list\<close> request returns a value or raises, and for a session id
  \<open>resume_session\<close> returns or raises and the \<open>session.getMessages\<close> request returns a
  value or raises. The SDK builds a client from a token.
\<close>

record copilot_client =
  start :: "error option"
  session_list :: "error + json"
  resume_session :: "json \<Rightarrow> error option"
  get_messages :: "json \<Rightarrow> error + json"
  stop :: "error option"

text \<open>\<open>_fetch_sessions\<close>: only a list has \<open>sort\<close>.\<close>

definition fetch_sessions :: "pylib \<Rightarrow> copilot_client \<Rightarrow> error + json list" where
  "fetch_sessions L client =
     ebind (session_list client) (\<lambda>response.
     ebind (case response of
              JArr xs \<Rightarrow> Inr response
            | _ \<Rightarrow> py_get response ''sessions'' (JArr [])) (\<lambda>sessions.
     case sessions of
       JArr xs \<Rightarrow> sort_desc L (\<lambda>s. py_get s ''startTime'' (JStr [])) xs
     | _ \<Rightarrow> Inl (Exc AttributeError (type_name sessions))))"

text \<open>\<open>_fetch_session_events\<close>: everything raised inside the \<open>try\<close> gives the empty list.\<close>

definition fetch_session_events :: "copilot_client \<Rightarrow> json \<Rightarrow> json" where
  "fetch_session_events client session_id =
     (case resume_session client session_id of
        Some e \<Rightarrow> JArr []
      | None \<Rightarrow>
          (case ebind (get_messages client session_id) (\<lambda>result. py_get result ''events'' (JArr [])) of
             Inl e \<Rightarrow> JArr []
           | Inr events \<Rightarrow> events))"

text \<open>
  A dict key: lists and dicts are unhashable, and \<open>True\<close> and \<open>1\<close> (\<open>False\<close> and
  \<open>0\<close>) are the same key. \<open>session_data\<close> is keyed by the key so normalised.
\<close>

fun hash_key :: "json \<Rightarrow> error + json" where
  "hash_key (JArr xs) = Inl (Exc TypeError ''list'')"
| "hash_key (JObj kvs) = Inl (Exc TypeError ''dict'')"
| "hash_key (JBool b) = Inr (JInt (if b then 1 else 0))"
| "hash_key v = Inr v"

text \<open>\<open>{**s, "events": events}\<close>: unpacking needs a mapping.\<close>

fun with_events :: "json \<Rightarrow> json \<Rightarrow> error + json" where
  "with_events (JObj kvs) events = Inr (JObj (dict_set ''events'' events kvs))"
| "with_events v events = Inl (Exc TypeError (type_name v))"

text \<open>
  The loop of \<open>fetch_copilot_sessions\<close> over the selected sessions, with \<open>session_data\<close>
  as accumulator. The second accumulator records, in order, the session ids that
  \<open>_fetch_session_events\<close> was called with.
\<close>

fun fetch_loop ::
  "copilot_client \<Rightarrow> json list \<Rightarrow> (json \<times> json) list \<Rightarrow> json list
     \<Rightarrow> error + ((json \<times> json) list \<times> json list)" where
  "fetch_loop client [] session_data fetched = Inr (session_data, fetched)"
| "fetch_loop client (s # ss) session_data fetched =
     ebind (py_get s ''sessionId'' JNull) (\<lambda>sid.
       if \<not> py_truthy sid then fetch_loop client ss session_data fetched
       else
         let events = fetch_session_events client sid in
         ebind (with_events s events) (\<lambda>rec.
         ebind (hash_key sid) (\<lambda>k.
         fetch_loop client ss (AList.update k rec session_data) (fetched @ [sid]))))"

text \<open>The id the loop stores a session under, if any: the value of \<open>sessionId\<close> when the
  session has one that is not falsy (the test \<open>if not sid: continue\<close>).\<close>

definition session_id_of :: "json \<Rightarrow> json option" where
  "session_id_of s =
     (case py_get s ''sessionId'' JNull of
        Inr sid \<Rightarrow> if py_truthy sid then Some sid else None
      | Inl e \<Rightarrow> None)"

text \<open>\<open>cap = None if fetch_all else limit; sessions = sessions[:cap] if cap else sessions\<close>\<close>

definition select_sessions :: "json list \<Rightarrow> int \<Rightarrow> bool \<Rightarrow> json list" where
  "select_sessions sessions limit fetch_all =
     (let cap = (if fetch_all then None else Some limit) in
      case cap of
        None \<Rightarrow> sessions
      | Some n \<Rightarrow> if n \<noteq> 0 then py_slice_to sessions n else sessions)"

text \<open>
  \<open>fetch_copilot_sessions\<close>. The result is the pair the code returns and, third, the ids
  events were fetched for. \<open>client.stop()\<close> runs in the \<open>finally\<close> clause: what it
  raises replaces the outcome of the body.
\<close>

definition fetch_copilot_sessions ::
  "pylib \<Rightarrow> (string \<Rightarrow> copilot_client) \<Rightarrow> string \<Rightarrow> int \<Rightarrow> bool
     \<Rightarrow> error + (json list \<times> (json \<times> json) list \<times> json list)" where
  "fetch_copilot_sessions L sdk token limit fetch_all =
     (let client = sdk token in
      case start client of
        Some e \<Rightarrow> Inl e
      | None \<Rightarrow>
          (let body =
             ebind (fetch_sessions L client) (\<lambda>all_sessions.
               let sessions = select_sessions all_sessions limit fetch_all in
               ebind (fetch_loop client sessions [] []) (\<lambda>(session_data, fetched).
               Inr (sessions, session_data, fetched)))
           in case stop client of
                Some e \<Rightarrow> Inl e
              | None \<Rightarrow> body))"

section \<open>The router (backend/main.py)\<close>

text \<open>
  An endpoint returns a value, raises \<open>HTTPException(status_code, detail)\<close>, or lets another
  exception escape, which the framework answers with status 500. The network is a function
  from the token a client is built with to its HTTP session. Closing the client in the
  \<open>finally\<close> clauses is taken to return.
\<close>

datatype 'a outcome =
    Returned 'a
  | HTTPException int json
  | Unhandled error

fun http_status :: "'a outcome \<Rightarrow> int" where
  "http_status (Returned v) = 200"
| "http_status (HTTPException code detail) = code"
| "http_status (Unhandled e) = 500"

definition make_client ::
  "(string \<Rightarrow> request \<Rightarrow> error + response) \<Rightarrow> string \<Rightarrow> string \<Rightarrow> string \<Rightarrow> github_client" where
  "make_client net owner_name repo_name token =
     \<lparr>owner = owner_name, repo = repo_name, http_get = net token\<rparr>"

text \<open>The character class \<open>[A-Za-z0-9_.-]\<close> of \<open>_GITHUB_URL_RE\<close>.\<close>

definition url_char :: "char \<Rightarrow> bool" where
  "url_char c \<longleftrightarrow>
     c \<in> set ''ABCDEFGHIJKLMNOPQRSTUVWXYZabcdefghijklmnopqrstuvwxyz0123456789_.-''"

text \<open>
  \<open>parse_github_url\<close>: \<open>re.match\<close> of
  \<^verbatim>\<open>(?:https?://)?(?:www\.)?github\.com/([A-Za-z0-9_.-]+)/([A-Za-z0-9_.-]+)(?:\.git)?/?$\<close>
  on \<open>url.strip()\<close>, which the runtime computes (all white space of Unicode goes). Both
  groups are greedy runs of the class, which holds the characters of \<open>.git\<close> and not the
  slash, so each group is the longest run, and what follows the second must be empty or one
  slash, up to the one line feed that \<open>$\<close> lets stand at the very end.
\<close>

definition parse_github_url :: "pylib \<Rightarrow> string \<Rightarrow> error + (string \<times> string)" where
  "parse_github_url L url =
     (let invalid = Inl (Exc ValueError (''Invalid GitHub URL: '' @ url));
          s = str_strip L url;
          s1 = (if startswith s ''https://'' then drop 8 s
                else if startswith s ''http://'' then drop 7 s else s);
          s2 = (if startswith s1 ''www.'' then drop 4 s1 else s1)
      in if \<not> startswith s2 ''github.com/'' then invalid
         else
           let s3 = drop 11 s2;
               group1 = takeWhile url_char s3;
               r1 = dropWhile url_char s3
           in if group1 = [] \<or> \<not> startswith r1 ''/'' then invalid
              else
                let r2 = drop 1 r1;
                    group2 = takeWhile url_char r2;
                    rest = dropWhile url_char r2
                in if group2 = []
                      \<or> rest \<notin> set [[], ''/'', [CHR 0x0A], [CHR ''/'', CHR 0x0A]] then invalid
                   else Inr (group1, group2))"

text \<open>\<open>connect\<close>: the \<open>except\<close> clauses are tried in the order written. On success the
  fields are handed to \<open>ConnectResponse\<close>, whose validation of their types raises outside
  the \<open>try\<close> statement.\<close>

definition connect ::
  "pylib \<Rightarrow> (string \<Rightarrow> request \<Rightarrow> error + response) \<Rightarrow> string \<Rightarrow> string \<Rightarrow> json outcome" where
  "connect L net github_url token =
     (case parse_github_url L github_url of
        Inl exc \<Rightarrow> HTTPException 400 (JStr (exc_str exc))
      | Inr (owner_name, repo_name) \<Rightarrow>
          (case validate (make_client net owner_name repo_name token) of
             Inl exc \<Rightarrow>
               if isinstance exc PermissionError then HTTPException 403 (JStr (exc_str exc))
               else if isinstance exc LookupError then HTTPException 404 (JStr (exc_str exc))
               else HTTPException 401 (JStr (''GitHub API error: '' @ exc_str exc))
           | Inr info \<Rightarrow>
               (case sequence
                       [py_get info ''full_name'' (JStr (owner_name @ ''/'' @ repo_name)),
                        py_get info ''description'' JNull,
                        py_get info ''default_branch'' (JStr ''main'')] of
                  Inl e \<Rightarrow> Unhandled e
                | Inr vs \<Rightarrow>
                    (case pydantic_model L ''ConnectResponse''
                            (zip [''owner'', ''repo'', ''full_name'', ''description'',
                                  ''default_branch'']
                                 (JStr owner_name # JStr repo_name # vs)) of
                       Inl e \<Rightarrow> Unhandled e
                     | Inr body \<Rightarrow> Returned body))))"

text \<open>\<open>k in v\<close> for a string \<open>k\<close>: a key of a dict, an element of a list, a substring of a
  string; nothing else is a container.\<close>

definition is_substring :: "string \<Rightarrow> string \<Rightarrow> bool" where
  "is_substring k s = list_ex (\<lambda>i. startswith (drop i s) k) [0..<Suc (length s)]"

fun py_contains :: "json \<Rightarrow> string \<Rightarrow> error + bool" where
  "py_contains (JObj kvs) k = Inr (k \<in> set (map fst kvs))"
| "py_contains (JArr xs) k = Inr (JStr k \<in> set xs)"
| "py_contains (JStr s) k = Inr (is_substring k s)"
| "py_contains v k = Inl (Exc TypeError (type_name v))"

text \<open>The body shared, word for word, by \<open>get_run_artifact\<close> and
  \<open>get_frd_run_artifact\<close>, which differ in the default of \<open>artifact_name\<close>.\<close>

definition get_run_artifact ::
  "pylib \<Rightarrow> (string \<Rightarrow> request \<Rightarrow> error + response) \<Rightarrow> int \<Rightarrow> string \<Rightarrow> string \<Rightarrow> string
     \<Rightarrow> string \<Rightarrow> json outcome" where
  "get_run_artifact L net run_id owner_name repo_name token artifact_name =
     (case get_artifact L (make_client net owner_name repo_name token) run_id artifact_name of
        Inl e \<Rightarrow> Unhandled e
      | Inr result \<Rightarrow>
          if result = JNull then HTTPException 404 (JStr ''Artifact not found'')
          else
            (case ebind (py_contains result ''error'') (\<lambda>has_error.
                    if has_error then py_contains result ''available'' else Inr False) of
               Inl e \<Rightarrow> Unhandled e
             | Inr both \<Rightarrow> if both then HTTPException 404 result else Returned result))"

definition get_frd_run_artifact ::
  "pylib \<Rightarrow> (string \<Rightarrow> request \<Rightarrow> error + response) \<Rightarrow> int \<Rightarrow> string \<Rightarrow> string \<Rightarrow> string
     \<Rightarrow> string \<Rightarrow> json outcome" where
  "get_frd_run_artifact L net run_id owner_name repo_name token artifact_name =
     get_run_artifact L net run_id owner_name repo_name token artifact_name"

subsection \<open>The session store\<close>

record session_store =
  st_sessions :: "json list"
  st_session_data :: "(json \<times> json) list"

definition initial_store :: session_store where
  "initial_store = \<lparr>st_sessions = [], st_session_data = []\<rparr>"

text \<open>\<open>s.replace(old, new)\<close>: an empty \<open>old\<close> matches before every character and at the end.\<close>

function replace_nonempty :: "string \<Rightarrow> string \<Rightarrow> string \<Rightarrow> string" where
  "replace_nonempty s old new =
     (if s = [] \<or> old = [] then s
      else if startswith s old then new @ replace_nonempty (drop (length old) s) old new
      else hd s # replace_nonempty (tl s) old new)"
  by pat_completeness auto
termination
  by (relation "measure (\<lambda>(s, old, new). length s)") auto

definition py_replace :: "string \<Rightarrow> string \<Rightarrow> string \<Rightarrow> string" where
  "py_replace s old new =
     (if old = [] then new @ concat (map (\<lambda>c. c # new) s) else replace_nonempty s old new)"

text \<open>
  \<open>fetch_sessions_endpoint\<close>: the store is passed in and returned. The two assignments to
  \<open>_session_store\<close> follow the \<open>try\<close> statement, and nothing between them can raise.
\<close>

definition fetch_sessions_endpoint ::
  "pylib \<Rightarrow> (string \<Rightarrow> copilot_client) \<Rightarrow> session_store \<Rightarrow> string \<Rightarrow> int \<Rightarrow> bool
     \<Rightarrow> json outcome \<times> session_store" where
  "fetch_sessions_endpoint L sdk store token limit fetch_all =
     (case fetch_copilot_sessions L sdk token limit fetch_all of
        Inl exc \<Rightarrow>
          (HTTPException 500 (JStr (''Fetch failed: '' @ py_replace (exc_str exc) token ''***'')),
           store)
      | Inr (fetched_sessions, fetched_data, fetched_ids) \<Rightarrow>
          (Returned (JObj
             [(''count'', JInt (int (length fetched_sessions))),
              (''message'', JStr (''Fetched '' @ str_int (int (length fetched_sessions))
                                   @ '' session(s) successfully''))]),
           store\<lparr>st_sessions := fetched_sessions, st_session_data := fetched_data\<rparr>))"

definition list_sessions :: "session_store \<Rightarrow> json outcome" where
  "list_sessions store = Returned (JArr (st_sessions store))"

definition get_session :: "session_store \<Rightarrow> string \<Rightarrow> json outcome" where
  "get_session store session_id =
     (case map_of (st_session_data store) (JStr session_id) of
        None \<Rightarrow> HTTPException 404 (JStr (''Session '' @ [CHR 0x27] @ session_id @ [CHR 0x27]
                                          @ '' not found. Fetch sessions first.''))
      | Some data \<Rightarrow> Returned data)"

section \<open>Concrete inputs\<close>

text \<open>
  One instance of the library parameters and a few upstream services, on which the model is
  run. The instance formats integers and strings, parses the four documents listed, opens
  the bundles listed, decodes ASCII text as it is, sorts by string keys, stably and in
  descending order, strips ASCII white space, and takes the fields of a response model as
  they are; on the inputs below this is what Python gives.
\<close>

definition demo_format :: "json \<Rightarrow> string" where
  "demo_format v =
     (case v of
        JNull \<Rightarrow> ''None''
      | JBool b \<Rightarrow> (if b then ''True'' else ''False'')
      | JInt i \<Rightarrow> str_int i
      | JStr s \<Rightarrow> s
      | _ \<Rightarrow> type_name v)"

definition doc_gatekeeper :: string where
  "doc_gatekeeper = ''{'' @ [CHR 0x22] @ ''verdict'' @ [CHR 0x22] @ '': 1}''"

definition doc_council :: string where
  "doc_council = ''{'' @ [CHR 0x22] @ ''votes'' @ [CHR 0x22] @ '': 3}''"

definition demo_loads :: "string \<Rightarrow> error + json" where
  "demo_loads bytes =
     (case map_of
             [(doc_gatekeeper, JObj [(''verdict'', JInt 1)]),
              (doc_council, JObj [(''votes'', JInt 3)]),
              (''[1]'', JArr [JInt 1]),
              (''null'', JNull)] bytes of
        Some v \<Rightarrow> Inr v
      | None \<Rightarrow> Inl (Exc ValueError ''Expecting value''))"

definition archive :: "(string \<times> (error + string)) list \<Rightarrow> zip_file" where
  "archive entries =
     \<lparr>namelist = map fst entries,
      read_entry = (\<lambda>name. case map_of entries name of
                              Some r \<Rightarrow> r
                            | None \<Rightarrow> Inl (Exc KeyError name))\<rparr>"

definition bundle_both :: "(string \<times> (error + string)) list" where
  "bundle_both =
     [(''council-results.json'', Inr doc_council),
      (''reports/gatekeeper-consolidated.json'', Inr doc_gatekeeper)]"

definition bundle_report :: "(string \<times> (error + string)) list" where
  "bundle_report =
     [(''out/gatekeeper-consolidated.json'', Inr doc_gatekeeper),
      (''out/cast-impact-analysis-v2.md'', Inr ''# Impact'')]"

definition bundle_damaged :: "(string \<times> (error + string)) list" where
  "bundle_damaged =
     [(''out/gatekeeper-consolidated.json'', Inr doc_gatekeeper),
      (''out/cast-impact-analysis-v2.md'',
         Inl (Exc (LibraryError ''zipfile.BadZipFile'') ''Bad CRC-32''))]"

definition bundle_list :: "(string \<times> (error + string)) list" where
  "bundle_list =
     [(''data/items.json'', Inr ''[1]''),
      (''data/cast-impact-analysis.md'', Inr ''# Impact'')]"

definition bundle_null :: "(string \<times> (error + string)) list" where
  "bundle_null = [(''analysis/result.json'', Inr ''null'')]"

definition demo_zip_open :: "string \<Rightarrow> error + zip_file" where
  "demo_zip_open bytes =
     (case map_of
             [(''zip:both'', bundle_both), (''zip:report'', bundle_report),
              (''zip:damaged'', bundle_damaged), (''zip:list'', bundle_list),
              (''zip:null'', bundle_null)] bytes of
        Some entries \<Rightarrow> Inr (archive entries)
      | None \<Rightarrow> Inl (Exc (LibraryError ''zipfile.BadZipFile'') ''File is not a zip file''))"

fun str_lt :: "string \<Rightarrow> string \<Rightarrow> bool" where
  "str_lt [] [] = False"
| "str_lt [] (y # ys) = True"
| "str_lt (x # xs) [] = False"
| "str_lt (x # xs) (y # ys) = ((of_char x :: nat) < of_char y \<or> (x = y \<and> str_lt xs ys))"

fun insert_desc :: "string \<times> json \<Rightarrow> (string \<times> json) list \<Rightarrow> (string \<times> json) list" where
  "insert_desc x [] = [x]"
| "insert_desc x (y # ys) = (if str_lt (fst y) (fst x) then x # y # ys else y # insert_desc x ys)"

fun str_key :: "json \<Rightarrow> string option" where
  "str_key (JStr s) = Some s"
| "str_key v = None"

definition demo_sort :: "(json \<Rightarrow> error + json) \<Rightarrow> json list \<Rightarrow> error + json list" where
  "demo_sort key xs =
     ebind (sequence (map key xs)) (\<lambda>keys.
       if list_all (\<lambda>k. str_key k \<noteq> None) keys
       then Inr (map snd (foldl (\<lambda>acc x. insert_desc x acc) [] (zip (map (the \<circ> str_key) keys) xs)))
       else if length xs < 2 then Inr xs
       else Inl (Exc TypeError ''<''))"

definition ascii_space :: "char \<Rightarrow> bool" where
  "ascii_space c \<longleftrightarrow> c \<in> set [CHR 0x09, CHR 0x0A, CHR 0x0B, CHR 0x0C, CHR 0x0D, CHR 0x20]"

definition demo_strip :: "string \<Rightarrow> string" where
  "demo_strip s = rev (dropWhile ascii_space (rev (dropWhile ascii_space s)))"

definition demo_lib :: pylib where
  "demo_lib =
     \<lparr>format_value = demo_format, json_loads = demo_loads, zip_open = demo_zip_open,
      decode_replace = Inr, sort_desc = demo_sort, str_strip = demo_strip,
      pydantic_model = (\<lambda>name kvs. Inr (JObj kvs))\<rparr>"

definition ok_response :: "json \<Rightarrow> response" where
  "ok_response body =
     \<lparr>status_code = 200, raise_for_status = None, json_body = Inr body, content = []\<rparr>"

definition status_response :: "int \<Rightarrow> response" where
  "status_response code =
     \<lparr>status_code = code,
      raise_for_status = Some (Exc (LibraryError ''httpx.HTTPStatusError'') ''error response''),
      json_body = Inr (JObj [(''message'', JStr ''error'')]), content = []\<rparr>"

text \<open>A run of the upstream listing, and the summary \<open>get_runs\<close> makes of it.\<close>

definition demo_run :: "int \<Rightarrow> string \<Rightarrow> json" where
  "demo_run n st =
     JObj [(''id'', JInt n), (''name'', JStr ''Gatekeeper Analysis''), (''status'', JStr st),
           (''conclusion'', JNull),
           (''created_at'', JStr ''2025-01-01T00:00:00Z''),
           (''updated_at'', JStr ''2025-01-01T00:05:00Z''),
           (''html_url'', JStr ''https://github.com/o/r/actions/runs/1''),
           (''head_sha'', JStr ''0123456789abcdef''),
           (''display_title'', JStr ''Update''),
           (''run_number'', JInt n),
           (''actor'', JObj [(''login'', JStr ''octocat'')])]"

definition demo_summary :: "int \<Rightarrow> string \<Rightarrow> json" where
  "demo_summary n st =
     JObj [(''id'', JInt n), (''status'', JStr st),
           (''conclusion'', JNull),
           (''created_at'', JStr ''2025-01-01T00:00:00Z''),
           (''updated_at'', JStr ''2025-01-01T00:05:00Z''),
           (''html_url'', JStr ''https://github.com/o/r/actions/runs/1''),
           (''head_sha'', JStr ''0123456''),
           (''display_title'', JStr ''Update''),
           (''run_number'', JInt n),
           (''actor'', JStr ''octocat''),
           (''actor_avatar'', JStr [])]"

text \<open>An upstream that answers every run listing with two runs, one still in progress.\<close>

definition overfull_client :: github_client where
  "overfull_client =
     \<lparr>owner = ''o'', repo = ''r'',
      http_get = (\<lambda>req. Inr (ok_response
        (JObj [(''total_count'', JInt 2),
               (''workflow_runs'', JArr [demo_run 1 ''in_progress'', demo_run 2 ''completed''])])))\<rparr>"

text \<open>An upstream with two artifacts on every run; the download of either is the bundle
  given.\<close>

definition demo_artifacts :: "json list" where
  "demo_artifacts =
     [JObj [(''id'', JInt 11), (''name'', JStr ''build-logs'')],
      JObj [(''id'', JInt 12), (''name'', JStr ''gatekeeper-final-analysis'')]]"

definition artifact_net :: "string \<Rightarrow> string \<Rightarrow> request \<Rightarrow> error + response" where
  "artifact_net bundle token req =
     (if endswith (path req) ''/zip''
      then Inr \<lparr>status_code = 200, raise_for_status = None,
                json_body = Inl (Exc ValueError ''Expecting value''), content = bundle\<rparr>
      else Inr (ok_response (JObj [(''total_count'', JInt 2), (''artifacts'', JArr demo_artifacts)])))"

definition artifact_client :: "string \<Rightarrow> github_client" where
  "artifact_client bundle = make_client (artifact_net bundle) ''o'' ''r'' ''t''"

text \<open>Upstreams that answer every request with one status code.\<close>

definition status_net :: "int \<Rightarrow> string \<Rightarrow> request \<Rightarrow> error + response" where
  "status_net code token req = Inr (status_response code)"

text \<open>Three sessions, one without an id; the events of \<open>s-old\<close> cannot be fetched.\<close>

definition s_new :: json where
  "s_new = JObj [(''sessionId'', JStr ''s-new''), (''startTime'', JStr ''2025-02-01'')]"

definition s_old :: json where
  "s_old = JObj [(''sessionId'', JStr ''s-old''), (''startTime'', JStr ''2025-01-01'')]"

definition s_anon :: json where
  "s_anon = JObj [(''startTime'', JStr ''2025-01-15'')]"

definition demo_events :: json where
  "demo_events = JArr [JObj [(''type'', JStr ''user.message'')]]"

definition demo_sdk :: "string \<Rightarrow> copilot_client" where
  "demo_sdk token =
     \<lparr>start = None,
      session_list = Inr (JArr [s_old, s_anon, s_new]),
      resume_session = (\<lambda>sid. None),
      get_messages = (\<lambda>sid. if sid = JStr ''s-old''
                             then Inl (Exc (LibraryError ''JsonRpcError'') ''session not found'')
                             else Inr (JObj [(''events'', demo_events)])),
      stop = None\<rparr>"

text \<open>The same service with the events of every session available.\<close>

definition healthy_sdk :: "string \<Rightarrow> copilot_client" where
  "healthy_sdk token = (demo_sdk token)\<lparr>get_messages := (\<lambda>sid. Inr (JObj [(''events'', demo_events)]))\<rparr>"

text \<open>A service that refuses the token.\<close>

definition failing_sdk :: "string \<Rightarrow> copilot_client" where
  "failing_sdk token =
     (demo_sdk token)\<lparr>session_list := Inl (Exc (LibraryError ''JsonRpcError'')
                                               (''bad credentials for '' @ token))\<rparr>"

text \<open>What fetching from this service gives: the record of \<open>s-old\<close> has no events.\<close>

definition demo_data :: "(json \<times> json) list" where
  "demo_data =
     [(JStr ''s-new'',
       JObj [(''sessionId'', JStr ''s-new''), (''startTime'', JStr ''2025-02-01''),
             (''events'', demo_events)]),
      (JStr ''s-old'',
       JObj [(''sessionId'', JStr ''s-old''), (''startTime'', JStr ''2025-01-01''),
             (''events'', JArr [])])]"

text \<open>What fetching from the service with all events available gives.\<close>

definition healthy_data :: "(json \<times> json) list" where
  "healthy_data =
     [(JStr ''s-new'',
       JObj [(''sessionId'', JStr ''s-new''), (''startTime'', JStr ''2025-02-01''),
             (''events'', demo_events)]),
      (JStr ''s-old'',
       JObj [(''sessionId'', JStr ''s-old''), (''startTime'', JStr ''2025-01-01''),
             (''events'', demo_events)])]"

section \<open>Basic facts\<close>

lemma ebind_Inl [simp]: "ebind (Inl e) f = Inl e"
  by (simp add: ebind_def)

lemma ebind_Inr [simp]: "ebind (Inr x) f = f x"
  by (simp add: ebind_def)

lemma ebind_eq_Inr: "ebind m f = Inr y \<longleftrightarrow> (\<exists>x. m = Inr x \<and> f x = Inr y)"
  by (cases m) simp_all

lemma sequence_eq_Inr: "sequence ms = Inr xs \<longleftrightarrow> ms = map Inr xs"
proof (induction ms arbitrary: xs)
  case Nil
  show ?case by auto
next
  case (Cons m ms)
  show ?case
  proof (cases m)
    case (Inl e)
    then show ?thesis by auto
  next
    case (Inr x)
    show ?thesis
    proof (cases "sequence ms")
      case (Inl e)
      with Inr Cons[of "tl xs"] show ?thesis by (cases xs) auto
    next
      case r: (Inr ys)
      with Cons[of ys] have "ms = map Inr ys" by simp
      with Inr r show ?thesis by auto
    qed
  qed
qed

lemma sequence_map_Inr:
  assumes "sequence (map f xs) = Inr ys"
  shows "length ys = length xs" and "\<And>i. i < length xs \<Longrightarrow> f (xs ! i) = Inr (ys ! i)"
proof -
  from assms have eq: "map f xs = map Inr ys" by (simp add: sequence_eq_Inr)
  then show len: "length ys = length xs" by (metis length_map)
  fix i assume "i < length xs"
  with eq len show "f (xs ! i) = Inr (ys ! i)" by (metis nth_map)
qed

section \<open>Run listings\<close>

lemma run_summary_status:
  assumes "run_summary r = Inr s"
  shows "py_index s ''status'' = py_index r ''status''"
proof -
  from assms obtain vs where
    seq: "sequence
       [py_index r ''id'',
        py_index r ''status'',
        py_index r ''conclusion'',
        py_index r ''created_at'',
        py_index r ''updated_at'',
        py_index r ''html_url'',
        ebind (py_index r ''head_sha'') (\<lambda>s. py_prefix s 7),
        py_index r ''display_title'',
        py_index r ''run_number'',
        actor_field r ''login'' (JStr ''unknown''),
        actor_field r ''avatar_url'' (JStr '''')] = Inr vs"
    and s: "s = JObj (zip
          [''id'', ''status'', ''conclusion'', ''created_at'', ''updated_at'', ''html_url'',
           ''head_sha'', ''display_title'', ''run_number'', ''actor'', ''actor_avatar''] vs)"
    unfolding run_summary_def ebind_eq_Inr by auto
  from seq obtain v0 v1 rest where vs: "vs = v0 # v1 # rest" and v1: "py_index r ''status'' = Inr v1"
    unfolding sequence_eq_Inr by (auto simp: Cons_eq_map_conv)
  show ?thesis unfolding s vs v1 by simp
qed

lemma run_summary_demo: "run_summary (demo_run n st) = Inr (demo_summary n st)"
  by (simp add: run_summary_def demo_run_def demo_summary_def actor_field_def)

lemma overfull_listing:
  "get_runs_listing demo_lib overfull_client (JInt 7) 1
     = Inr [demo_run 1 ''in_progress'', demo_run 2 ''completed'']"
  by (simp add: get_runs_listing_def get_json_def overfull_client_def ok_response_def)

lemma overfull_runs:
  "get_runs demo_lib overfull_client (JInt 7) 1
     = Inr [demo_summary 1 ''in_progress'', demo_summary 2 ''completed'']"
  by (simp add: get_runs_def overfull_listing run_summary_demo)

text \<open>
  C5 (as the code has it). \<open>get_runs\<close> returns one summary for each run of the upstream
  response's \<open>workflow_runs\<close> list, in the same order, each with that run's status as the
  upstream gave it. The page size and the status filter are sent upstream as query
  parameters (see \<open>get_runs_listing\<close>) and the response is not checked against them: the
  result has at most \<open>per_page\<close> entries, all completed, when the upstream's list has.
\<close>

theorem get_runs_mirrors_upstream:
  assumes "get_runs L c workflow_id per_page = Inr out"
  shows "\<exists>runs. get_runs_listing L c workflow_id per_page = Inr runs
           \<and> length out = length runs
           \<and> (\<forall>i < length runs. py_index (out ! i) ''status'' = py_index (runs ! i) ''status'')
           \<and> (int (length runs) \<le> per_page
                \<and> (\<forall>r \<in> set runs. py_index r ''status'' = Inr (JStr ''completed''))
              \<longrightarrow> int (length out) \<le> per_page
                \<and> (\<forall>s \<in> set out. py_index s ''status'' = Inr (JStr ''completed'')))"
proof -
  from assms obtain runs where
    listing: "get_runs_listing L c workflow_id per_page = Inr runs"
    and seq: "sequence (map run_summary runs) = Inr out"
    unfolding get_runs_def ebind_eq_Inr by blast
  have len: "length out = length runs" using seq by (rule sequence_map_Inr(1))
  have status: "py_index (out ! i) ''status'' = py_index (runs ! i) ''status''"
    if "i < length runs" for i
    using sequence_map_Inr(2)[OF seq that] by (rule run_summary_status)
  have "py_index s ''status'' = Inr (JStr ''completed'')"
    if all: "\<forall>r \<in> set runs. py_index r ''status'' = Inr (JStr ''completed'')"
      and s: "s \<in> set out" for s
  proof -
    from s obtain i where i: "i < length out" and at: "out ! i = s"
      by (auto simp: in_set_conv_nth)
    from i len have "runs ! i \<in> set runs" by simp
    with all status[of i] i len at show ?thesis by auto
  qed
  with listing len status show ?thesis by auto
qed

theorem get_runs_mirrors_upstream_witness:
  "get_runs demo_lib overfull_client (JInt 7) 1
     = Inr [demo_summary 1 ''in_progress'', demo_summary 2 ''completed'']
   \<and> (\<exists>runs. get_runs_listing demo_lib overfull_client (JInt 7) 1 = Inr runs
         \<and> length [demo_summary 1 ''in_progress'', demo_summary 2 ''completed''] = length runs)"
  using overfull_runs get_runs_mirrors_upstream [OF overfull_runs] by blast

text \<open>
  C5 as stated fails: with page size 1 requested, an upstream that answers with two runs,
  the first in progress, gets both back from \<open>get_runs\<close>, the first with status
  \<open>in_progress\<close>.
\<close>

theorem get_runs_counterexample:
  "get_runs demo_lib overfull_client (JInt 7) 1
     = Inr [demo_summary 1 ''in_progress'', demo_summary 2 ''completed'']
   \<and> \<not> length [demo_summary 1 ''in_progress'', demo_summary 2 ''completed''] \<le> 1
   \<and> py_index (demo_summary 1 ''in_progress'') ''status'' = Inr (JStr ''in_progress'')
   \<and> JStr ''in_progress'' \<noteq> JStr ''completed''"
  by (simp add: overfull_runs demo_summary_def)

section \<open>Artifacts\<close>

lemma find_artifact_miss:
  assumes "sequence (map (\<lambda>a. py_index a ''name'') artifacts) = Inr names"
    and "JStr artifact_name \<notin> set names"
  shows "find_artifact artifact_name artifacts available = Inr (JNull, available @ names)"
  using assms
proof (induction artifacts arbitrary: available names)
  case Nil
  then show ?case by simp
next
  case (Cons a artifacts)
  from Cons.prems(1) obtain nm rest where
    names: "names = nm # rest" and nm: "py_index a ''name'' = Inr nm"
    and rest: "sequence (map (\<lambda>a. py_index a ''name'') artifacts) = Inr rest"
    by (auto simp: ebind_eq_Inr)
  from Cons.prems(2) names have ne: "nm \<noteq> JStr artifact_name"
    and notin: "JStr artifact_name \<notin> set rest"
    by auto
  from Cons.IH[OF rest notin, of "available @ [nm]"] nm ne names show ?case by simp
qed

lemma get_artifact_of_bundle:
  assumes "artifact_listing c run_id = Inr artifacts"
    and "find_artifact artifact_name artifacts [] = Inr (artifact_id, available)"
    and "artifact_id \<noteq> JNull"
    and "download_zip L c artifact_id = Inr zf"
  shows "get_artifact L c run_id artifact_name = extract_json L zf"
  using assms by (simp add: get_artifact_def)

lemma find_candidate_first:
  assumes "List.find (\<lambda>name. endswith name ''gatekeeper-consolidated.json'') names = Some entry"
  shows "find_candidate json_candidates names = Some entry"
  using assms by (simp add: json_candidates_def)

lemma merge_cast_impact_none:
  assumes "List.find (\<lambda>name. startswith (basename name) ''cast-impact-analysis'') (namelist zf) = None"
  shows "merge_cast_impact L zf doc = doc"
  using assms by (simp add: merge_cast_impact_def)

lemma merge_cast_impact_null: "merge_cast_impact L zf doc = JNull \<longleftrightarrow> doc = JNull"
  by (auto simp: merge_cast_impact_def split: option.splits sum.splits json.splits)

text \<open>
  C1. An archive that holds an entry whose name ends with \<open>gatekeeper-consolidated.json\<close>:
  \<open>get_artifact\<close> returns the document parsed from the first such entry of the name list,
  whatever else the archive holds and wherever the entry stands in the listing (an entry
  ending with \<open>council-results.json\<close> may come before it). The document passes through
  \<open>_merge_cast_impact\<close> on the way out, which leaves it as it is when no entry's base name
  starts with \<open>cast-impact-analysis\<close>.
\<close>

theorem get_artifact_consolidated_first:
  assumes "artifact_listing c run_id = Inr artifacts"
    and "find_artifact artifact_name artifacts [] = Inr (artifact_id, available)"
    and "artifact_id \<noteq> JNull"
    and "download_zip L c artifact_id = Inr zf"
    and "List.find (\<lambda>name. endswith name ''gatekeeper-consolidated.json'') (namelist zf) = Some entry"
    and "read_entry zf entry = Inr bytes"
    and "json_loads L bytes = Inr doc"
  shows "get_artifact L c run_id artifact_name = Inr (merge_cast_impact L zf doc)
         \<and> (List.find (\<lambda>name. startswith (basename name) ''cast-impact-analysis'') (namelist zf) = None
              \<longrightarrow> get_artifact L c run_id artifact_name = Inr doc)"
proof -
  have "select_entry (namelist zf) = Some entry"
    using find_candidate_first[OF assms(5)] by (simp add: select_entry_def)
  then have "extract_json L zf = Inr (merge_cast_impact L zf doc)"
    using assms(6,7) by (simp add: extract_json_def load_entry_def)
  then have "get_artifact L c run_id artifact_name = Inr (merge_cast_impact L zf doc)"
    using get_artifact_of_bundle[OF assms(1-4)] by simp
  then show ?thesis by (simp add: merge_cast_impact_none)
qed

lemma demo_listing:
  "artifact_listing (artifact_client bundle) 5 = Inr demo_artifacts"
  by (simp add: artifact_listing_def get_json_def artifact_client_def make_client_def
      artifact_net_def endswith_def ok_response_def repo_prefix_def str_int_def digit_char_def)

lemma demo_find:
  "find_artifact ''gatekeeper-final-analysis'' demo_artifacts []
     = Inr (JInt 12, [JStr ''build-logs'', JStr ''gatekeeper-final-analysis''])"
  by (simp add: demo_artifacts_def)

lemma demo_download:
  "download_zip demo_lib (artifact_client bundle) (JInt 12) = demo_zip_open bundle"
  by (simp add: download_zip_def artifact_client_def make_client_def artifact_net_def
      endswith_def repo_prefix_def demo_lib_def demo_format_def str_int_def digit_char_def)

lemma demo_open_both: "demo_zip_open ''zip:both'' = Inr (archive bundle_both)"
  by (simp add: demo_zip_open_def)

lemma demo_open_report: "demo_zip_open ''zip:report'' = Inr (archive bundle_report)"
  by (simp add: demo_zip_open_def)

lemma demo_open_damaged: "demo_zip_open ''zip:damaged'' = Inr (archive bundle_damaged)"
  by (simp add: demo_zip_open_def)

lemma demo_open_null: "demo_zip_open ''zip:null'' = Inr (archive bundle_null)"
  by (simp add: demo_zip_open_def)

lemma demo_loads_gatekeeper: "json_loads demo_lib doc_gatekeeper = Inr (JObj [(''verdict'', JInt 1)])"
  by (simp add: demo_lib_def demo_loads_def doc_gatekeeper_def doc_council_def)

theorem get_artifact_consolidated_first_witness:
  "namelist (archive bundle_both) = [''council-results.json'', ''reports/gatekeeper-consolidated.json'']
   \<and> get_artifact demo_lib (artifact_client ''zip:both'') 5 ''gatekeeper-final-analysis''
       = Inr (JObj [(''verdict'', JInt 1)])"
proof -
  have h3: "JInt 12 \<noteq> JNull" by simp
  have h4: "download_zip demo_lib (artifact_client ''zip:both'') (JInt 12) = Inr (archive bundle_both)"
    by (simp add: demo_download demo_open_both)
  have h5: "List.find (\<lambda>name. endswith name ''gatekeeper-consolidated.json'')
              (namelist (archive bundle_both)) = Some ''reports/gatekeeper-consolidated.json''"
    by (simp add: archive_def bundle_both_def endswith_def)
  have h6: "read_entry (archive bundle_both) ''reports/gatekeeper-consolidated.json''
              = Inr doc_gatekeeper"
    by (simp add: archive_def bundle_both_def)
  have none: "List.find (\<lambda>name. startswith (basename name) ''cast-impact-analysis'')
              (namelist (archive bundle_both)) = None"
    by (simp add: archive_def bundle_both_def basename_def startswith_def)
  have names: "namelist (archive bundle_both)
                 = [''council-results.json'', ''reports/gatekeeper-consolidated.json'']"
    by (simp add: archive_def bundle_both_def)
  from get_artifact_consolidated_first [OF demo_listing demo_find h3 h4 h5 h6 demo_loads_gatekeeper]
    none
  have "get_artifact demo_lib (artifact_client ''zip:both'') 5 ''gatekeeper-final-analysis''
          = Inr (JObj [(''verdict'', JInt 1)])"
    by blast
  with names show ?thesis by blast
qed

text \<open>
  C2. A listing in which every artifact has a name and none has the requested one:
  \<open>get_artifact\<close> returns (it does not raise) the error descriptor, a mapping with the
  message under \<open>error\<close> and, under \<open>available\<close>, the names of all artifacts of the
  listing, in listing order.
\<close>

theorem get_artifact_miss_lists_all_names:
  assumes "artifact_listing c run_id = Inr artifacts"
    and "sequence (map (\<lambda>a. py_index a ''name'') artifacts) = Inr names"
    and "JStr artifact_name \<notin> set names"
  shows "get_artifact L c run_id artifact_name
           = Inr (JObj [(''error'', JStr (''Artifact '' @ [CHR 0x27] @ artifact_name @ [CHR 0x27]
                                          @ '' not found'')),
                        (''available'', JArr names)])"
  using assms(1) find_artifact_miss[OF assms(2,3), of "[]"]
  by (simp add: get_artifact_def not_found_descriptor_def)

theorem get_artifact_miss_lists_all_names_witness:
  "get_artifact demo_lib (artifact_client ''zip:both'') 5 ''feature-requirement-analysis''
     = Inr (JObj [(''error'', JStr (''Artifact '' @ [CHR 0x27] @ ''feature-requirement-analysis''
                                    @ [CHR 0x27] @ '' not found'')),
                  (''available'', JArr [JStr ''build-logs'', JStr ''gatekeeper-final-analysis''])])"
proof -
  have h2: "sequence (map (\<lambda>a. py_index a ''name'') demo_artifacts)
              = Inr [JStr ''build-logs'', JStr ''gatekeeper-final-analysis'']"
    by (simp add: demo_artifacts_def)
  have h3: "JStr ''feature-requirement-analysis''
              \<notin> set [JStr ''build-logs'', JStr ''gatekeeper-final-analysis'']"
    by simp
  show ?thesis
    by (rule get_artifact_miss_lists_all_names [OF demo_listing h2 h3])
qed

lemma dict_set_lookup:
  "map_of (dict_set k v kvs) k = Some v"
  "k' \<noteq> k \<Longrightarrow> map_of (dict_set k v kvs) k' = map_of kvs k'"
  by (simp_all add: dict_set_def update_conv')

lemma merge_cast_impact_read:
  assumes "List.find (\<lambda>name. startswith (basename name) ''cast-impact-analysis'') (namelist zf) = Some md"
    and "read_entry zf md = Inr raw"
    and "decode_replace L raw = Inr md_text"
  shows "merge_cast_impact L zf (JObj kvs)
           = JObj (dict_set ''cast_impact_analysis'' (JStr md_text) kvs)"
  using assms by (simp add: merge_cast_impact_def)

lemma merge_cast_impact_failed:
  assumes "List.find (\<lambda>name. startswith (basename name) ''cast-impact-analysis'') (namelist zf) = Some md"
    and "ebind (read_entry zf md) (decode_replace L) = Inl e"
  shows "merge_cast_impact L zf doc = doc"
  using assms by (simp add: merge_cast_impact_def)

lemma get_artifact_selected:
  assumes "artifact_listing c run_id = Inr artifacts"
    and "find_artifact artifact_name artifacts [] = Inr (artifact_id, available)"
    and "artifact_id \<noteq> JNull"
    and "download_zip L c artifact_id = Inr zf"
    and "select_entry (namelist zf) = Some entry"
    and "read_entry zf entry = Inr bytes"
    and "json_loads L bytes = Inr doc"
  shows "get_artifact L c run_id artifact_name = Inr (merge_cast_impact L zf doc)"
  using get_artifact_of_bundle[OF assms(1-4)] assms(5-7)
  by (simp add: extract_json_def load_entry_def)

lemma merge_cast_impact_not_object:
  assumes "\<forall>kvs. doc \<noteq> JObj kvs"
  shows "merge_cast_impact L zf doc = doc"
  using assms by (cases doc) (simp_all add: merge_cast_impact_def split: option.splits sum.splits)

text \<open>
  C3 (as the code has it). An archive with a JSON payload entry and an entry whose base
  name starts with \<open>cast-impact-analysis\<close> (\<open>md\<close> is the first such entry). When the
  payload parses to an object and \<open>md\<close> is read and decoded, the result is the parsed object
  with the text stored under \<open>cast_impact_analysis\<close> and every other field as parsed. When
  reading or decoding \<open>md\<close> raises, or the payload parses to anything but an object (the
  item assignment then raises inside the same \<open>try\<close>), the result is the parsed payload
  as it is.
\<close>

theorem get_artifact_merges_cast_impact:
  assumes "artifact_listing c run_id = Inr artifacts"
    and "find_artifact artifact_name artifacts [] = Inr (artifact_id, available)"
    and "artifact_id \<noteq> JNull"
    and "download_zip L c artifact_id = Inr zf"
    and "select_entry (namelist zf) = Some entry"
    and "read_entry zf entry = Inr bytes"
    and "json_loads L bytes = Inr doc"
    and "List.find (\<lambda>name. startswith (basename name) ''cast-impact-analysis'') (namelist zf) = Some md"
  shows "(\<forall>kvs raw md_text.
            doc = JObj kvs \<and> read_entry zf md = Inr raw \<and> decode_replace L raw = Inr md_text \<longrightarrow>
            get_artifact L c run_id artifact_name
              = Inr (JObj (dict_set ''cast_impact_analysis'' (JStr md_text) kvs))
            \<and> map_of (dict_set ''cast_impact_analysis'' (JStr md_text) kvs) ''cast_impact_analysis''
                = Some (JStr md_text)
            \<and> (\<forall>k. k \<noteq> ''cast_impact_analysis'' \<longrightarrow>
                  map_of (dict_set ''cast_impact_analysis'' (JStr md_text) kvs) k = map_of kvs k))
         \<and> ((\<exists>e. read_entry zf md = Inl e)
              \<or> (\<exists>raw e. read_entry zf md = Inr raw \<and> decode_replace L raw = Inl e)
              \<or> (\<forall>kvs. doc \<noteq> JObj kvs) \<longrightarrow>
            get_artifact L c run_id artifact_name = Inr doc)"
proof -
  note sel = get_artifact_selected[OF assms(1-7)]
  have ok: "get_artifact L c run_id artifact_name
              = Inr (JObj (dict_set ''cast_impact_analysis'' (JStr md_text) kvs))"
    if "doc = JObj kvs" and "read_entry zf md = Inr raw" and "decode_replace L raw = Inr md_text"
    for kvs raw md_text
    using sel merge_cast_impact_read[OF assms(8) that(2,3)] that(1) by simp
  have failed: "get_artifact L c run_id artifact_name = Inr doc"
    if "(\<exists>e. read_entry zf md = Inl e)
          \<or> (\<exists>raw e. read_entry zf md = Inr raw \<and> decode_replace L raw = Inl e)"
  proof -
    from that obtain e where "ebind (read_entry zf md) (decode_replace L) = Inl e"
      by auto
    from merge_cast_impact_failed[OF assms(8) this] sel show ?thesis by simp
  qed
  have other: "get_artifact L c run_id artifact_name = Inr doc" if "\<forall>kvs. doc \<noteq> JObj kvs"
    using sel merge_cast_impact_not_object[OF that] by simp
  from ok failed other show ?thesis by (auto simp: dict_set_lookup)
qed

lemma demo_select_report:
  "select_entry (namelist (archive bundle_report)) = Some ''out/gatekeeper-consolidated.json''"
  by (simp add: select_entry_def json_candidates_def archive_def bundle_report_def endswith_def)

lemma demo_select_damaged:
  "select_entry (namelist (archive bundle_damaged)) = Some ''out/gatekeeper-consolidated.json''"
  by (simp add: select_entry_def json_candidates_def archive_def bundle_damaged_def endswith_def)

lemma demo_select_list:
  "select_entry (namelist (archive bundle_list)) = Some ''data/items.json''"
  by (simp add: select_entry_def json_candidates_def archive_def bundle_list_def endswith_def)

lemma demo_open_list: "demo_zip_open ''zip:list'' = Inr (archive bundle_list)"
  by (simp add: demo_zip_open_def)

lemma demo_loads_list: "json_loads demo_lib ''[1]'' = Inr (JArr [JInt 1])"
  by (simp add: demo_lib_def demo_loads_def doc_gatekeeper_def doc_council_def)

lemma demo_list_result:
  "get_artifact demo_lib (artifact_client ''zip:list'') 5 ''gatekeeper-final-analysis''
     = Inr (JArr [JInt 1])"
proof -
  have h3: "JInt 12 \<noteq> JNull" by simp
  have h4: "download_zip demo_lib (artifact_client ''zip:list'') (JInt 12)
              = Inr (archive bundle_list)"
    by (simp add: demo_download demo_open_list)
  have h6: "read_entry (archive bundle_list) ''data/items.json'' = Inr ''[1]''"
    by (simp add: archive_def bundle_list_def)
  have "\<forall>kvs. JArr [JInt 1] \<noteq> JObj kvs" by simp
  from get_artifact_selected[OF demo_listing demo_find h3 h4 demo_select_list h6 demo_loads_list]
    merge_cast_impact_not_object[OF this]
  show ?thesis by simp
qed

theorem get_artifact_merges_cast_impact_witness:
  "get_artifact demo_lib (artifact_client ''zip:report'') 5 ''gatekeeper-final-analysis''
     = Inr (JObj [(''verdict'', JInt 1), (''cast_impact_analysis'', JStr ''# Impact'')])
   \<and> get_artifact demo_lib (artifact_client ''zip:damaged'') 5 ''gatekeeper-final-analysis''
     = Inr (JObj [(''verdict'', JInt 1)])
   \<and> get_artifact demo_lib (artifact_client ''zip:list'') 5 ''gatekeeper-final-analysis''
     = Inr (JArr [JInt 1])"
proof -
  have h3: "JInt 12 \<noteq> JNull" by simp
  have r4: "download_zip demo_lib (artifact_client ''zip:report'') (JInt 12)
              = Inr (archive bundle_report)"
    by (simp add: demo_download demo_open_report)
  have r6: "read_entry (archive bundle_report) ''out/gatekeeper-consolidated.json''
              = Inr doc_gatekeeper"
    by (simp add: archive_def bundle_report_def)
  have r8: "List.find (\<lambda>name. startswith (basename name) ''cast-impact-analysis'')
              (namelist (archive bundle_report)) = Some ''out/cast-impact-analysis-v2.md''"
    by (simp add: archive_def bundle_report_def basename_def startswith_def)
  have r9: "read_entry (archive bundle_report) ''out/cast-impact-analysis-v2.md'' = Inr ''# Impact''
            \<and> decode_replace demo_lib ''# Impact'' = Inr ''# Impact''"
    by (simp add: archive_def bundle_report_def demo_lib_def)
  have d4: "download_zip demo_lib (artifact_client ''zip:damaged'') (JInt 12)
              = Inr (archive bundle_damaged)"
    by (simp add: demo_download demo_open_damaged)
  have d6: "read_entry (archive bundle_damaged) ''out/gatekeeper-consolidated.json''
              = Inr doc_gatekeeper"
    by (simp add: archive_def bundle_damaged_def)
  have d8: "List.find (\<lambda>name. startswith (basename name) ''cast-impact-analysis'')
              (namelist (archive bundle_damaged)) = Some ''out/cast-impact-analysis-v2.md''"
    by (simp add: archive_def bundle_damaged_def basename_def startswith_def)
  have d9: "\<exists>e. read_entry (archive bundle_damaged) ''out/cast-impact-analysis-v2.md'' = Inl e"
    by (simp add: archive_def bundle_damaged_def)
  have l4: "download_zip demo_lib (artifact_client ''zip:list'') (JInt 12)
              = Inr (archive bundle_list)"
    by (simp add: demo_download demo_open_list)
  have l6: "read_entry (archive bundle_list) ''data/items.json'' = Inr ''[1]''"
    by (simp add: archive_def bundle_list_def)
  have l8: "List.find (\<lambda>name. startswith (basename name) ''cast-impact-analysis'')
              (namelist (archive bundle_list)) = Some ''data/cast-impact-analysis.md''"
    by (simp add: archive_def bundle_list_def basename_def startswith_def)
  have l9: "\<forall>kvs. JArr [JInt 1] \<noteq> JObj kvs" by simp
  from get_artifact_merges_cast_impact
         [OF demo_listing demo_find h3 r4 demo_select_report r6 demo_loads_gatekeeper r8] r9
  have "get_artifact demo_lib (artifact_client ''zip:report'') 5 ''gatekeeper-final-analysis''
          = Inr (JObj (dict_set ''cast_impact_analysis'' (JStr ''# Impact'') [(''verdict'', JInt 1)]))"
    by blast
  moreover
  from get_artifact_merges_cast_impact
         [OF demo_listing demo_find h3 d4 demo_select_damaged d6 demo_loads_gatekeeper d8] d9
  have "get_artifact demo_lib (artifact_client ''zip:damaged'') 5 ''gatekeeper-final-analysis''
          = Inr (JObj [(''verdict'', JInt 1)])"
    by blast
  moreover
  from get_artifact_merges_cast_impact
         [OF demo_listing demo_find h3 l4 demo_select_list l6 demo_loads_list l8] l9
  have "get_artifact demo_lib (artifact_client ''zip:list'') 5 ''gatekeeper-final-analysis''
          = Inr (JArr [JInt 1])"
    by blast
  ultimately show ?thesis by (simp add: dict_set_def)
qed

text \<open>
  C3 as stated fails: the archive holds the JSON payload \<open>[1]\<close> and a markdown entry
  \<open>cast-impact-analysis.md\<close> that reads and decodes to \<open># Impact\<close>; the result is the
  list \<open>[1]\<close>, with the text nowhere in it.
\<close>

theorem get_artifact_merge_counterexample:
  "namelist (archive bundle_list) = [''data/items.json'', ''data/cast-impact-analysis.md'']
   \<and> basename ''data/cast-impact-analysis.md'' = ''cast-impact-analysis.md''
   \<and> read_entry (archive bundle_list) ''data/cast-impact-analysis.md'' = Inr ''# Impact''
   \<and> decode_replace demo_lib ''# Impact'' = Inr ''# Impact''
   \<and> get_artifact demo_lib (artifact_client ''zip:list'') 5 ''gatekeeper-final-analysis''
       = Inr (JArr [JInt 1])
   \<and> py_index (JArr [JInt 1]) ''cast_impact_analysis'' \<noteq> Inr (JStr ''# Impact'')"
proof -
  have "decode_replace demo_lib ''# Impact'' = Inr ''# Impact''"
    by (simp add: demo_lib_def)
  then show ?thesis
    by (simp add: demo_list_result archive_def bundle_list_def basename_def)
qed

text \<open>
  C10 (as the code has it). \<open>get_artifact\<close> returns \<open>None\<close> exactly when an entry is
  selected from the archive and its content parses to the JSON value \<open>null\<close>; on a name
  miss and on an archive without a JSON entry it returns an error descriptor. When it
  returns \<open>None\<close>, the artifact endpoint raises 404 with detail \<open>Artifact not found\<close>.
\<close>

theorem get_artifact_none_iff_null_document:
  "(get_artifact L (make_client net own rep token) run_id artifact_name = Inr JNull \<longleftrightarrow>
      (\<exists>artifacts artifact_id available zf entry bytes.
          artifact_listing (make_client net own rep token) run_id = Inr artifacts
        \<and> find_artifact artifact_name artifacts [] = Inr (artifact_id, available)
        \<and> artifact_id \<noteq> JNull
        \<and> download_zip L (make_client net own rep token) artifact_id = Inr zf
        \<and> select_entry (namelist zf) = Some entry
        \<and> read_entry zf entry = Inr bytes
        \<and> json_loads L bytes = Inr JNull))
   \<and> (get_artifact L (make_client net own rep token) run_id artifact_name = Inr JNull \<longrightarrow>
        get_run_artifact L net run_id own rep token artifact_name
          = HTTPException 404 (JStr ''Artifact not found''))
   \<and> (\<forall>artifacts available.
          artifact_listing (make_client net own rep token) run_id = Inr artifacts
        \<and> find_artifact artifact_name artifacts [] = Inr (JNull, available) \<longrightarrow>
        get_artifact L (make_client net own rep token) run_id artifact_name
          = Inr (not_found_descriptor artifact_name available))
   \<and> (\<forall>artifacts artifact_id available zf.
          artifact_listing (make_client net own rep token) run_id = Inr artifacts
        \<and> find_artifact artifact_name artifacts [] = Inr (artifact_id, available)
        \<and> artifact_id \<noteq> JNull
        \<and> download_zip L (make_client net own rep token) artifact_id = Inr zf
        \<and> select_entry (namelist zf) = None \<longrightarrow>
        get_artifact L (make_client net own rep token) run_id artifact_name
          = Inr (JObj [(''error'', JStr ''No JSON found in artifact'')]))"
proof -
  let ?c = "make_client net own rep token"
  have miss: "get_artifact L ?c run_id artifact_name
                = Inr (not_found_descriptor artifact_name available)"
    if "artifact_listing ?c run_id = Inr artifacts"
      and "find_artifact artifact_name artifacts [] = Inr (JNull, available)"
    for artifacts available
    using that by (simp add: get_artifact_def)
  have no_json: "get_artifact L ?c run_id artifact_name
                = Inr (JObj [(''error'', JStr ''No JSON found in artifact'')])"
    if "artifact_listing ?c run_id = Inr artifacts"
      and "find_artifact artifact_name artifacts [] = Inr (artifact_id, available)"
      and "artifact_id \<noteq> JNull"
      and "download_zip L ?c artifact_id = Inr zf"
      and "select_entry (namelist zf) = None"
    for artifacts artifact_id available zf
    using get_artifact_of_bundle[OF that(1-4)] that(5) by (simp add: extract_json_def)
  have right: "get_artifact L ?c run_id artifact_name = Inr JNull"
    if "artifact_listing ?c run_id = Inr artifacts"
      and "find_artifact artifact_name artifacts [] = Inr (artifact_id, available)"
      and "artifact_id \<noteq> JNull"
      and "download_zip L ?c artifact_id = Inr zf"
      and "select_entry (namelist zf) = Some entry"
      and "read_entry zf entry = Inr bytes"
      and "json_loads L bytes = Inr JNull"
    for artifacts artifact_id available zf entry bytes
    using get_artifact_selected[OF that] by (simp add: merge_cast_impact_null)
  have left: "\<exists>artifacts artifact_id available zf entry bytes.
          artifact_listing ?c run_id = Inr artifacts
        \<and> find_artifact artifact_name artifacts [] = Inr (artifact_id, available)
        \<and> artifact_id \<noteq> JNull
        \<and> download_zip L ?c artifact_id = Inr zf
        \<and> select_entry (namelist zf) = Some entry
        \<and> read_entry zf entry = Inr bytes
        \<and> json_loads L bytes = Inr JNull"
    if none: "get_artifact L ?c run_id artifact_name = Inr JNull"
  proof -
    from none obtain artifacts found where
      listing: "artifact_listing ?c run_id = Inr artifacts"
      and found: "find_artifact artifact_name artifacts [] = Inr found"
      and rest: "(case found of (artifact_id, available) \<Rightarrow>
                   if artifact_id = JNull then Inr (not_found_descriptor artifact_name available)
                   else ebind (download_zip L ?c artifact_id) (extract_json L)) = Inr JNull"
      unfolding get_artifact_def ebind_eq_Inr by blast
    obtain artifact_id available where pair: "found = (artifact_id, available)"
      by (cases found)
    from rest pair have id: "artifact_id \<noteq> JNull"
      by (auto simp: not_found_descriptor_def)
    with rest pair obtain zf where
      zip: "download_zip L ?c artifact_id = Inr zf" and ex: "extract_json L zf = Inr JNull"
      by (auto simp: ebind_eq_Inr)
    from ex obtain entry where sel: "select_entry (namelist zf) = Some entry"
      and load: "load_entry L zf entry = Inr JNull"
      by (auto simp: extract_json_def split: option.splits)
    from load obtain bytes doc where rd: "read_entry zf entry = Inr bytes"
      and ld: "json_loads L bytes = Inr doc" and mg: "merge_cast_impact L zf doc = JNull"
      by (auto simp: load_entry_def ebind_eq_Inr)
    from mg have "doc = JNull" by (simp add: merge_cast_impact_null)
    with listing found pair id zip sel rd ld show ?thesis by blast
  qed
  have router: "get_run_artifact L net run_id own rep token artifact_name
                  = HTTPException 404 (JStr ''Artifact not found'')"
    if "get_artifact L ?c run_id artifact_name = Inr JNull"
    using that by (simp add: get_run_artifact_def)
  have iff: "get_artifact L ?c run_id artifact_name = Inr JNull \<longleftrightarrow>
      (\<exists>artifacts artifact_id available zf entry bytes.
          artifact_listing ?c run_id = Inr artifacts
        \<and> find_artifact artifact_name artifacts [] = Inr (artifact_id, available)
        \<and> artifact_id \<noteq> JNull
        \<and> download_zip L ?c artifact_id = Inr zf
        \<and> select_entry (namelist zf) = Some entry
        \<and> read_entry zf entry = Inr bytes
        \<and> json_loads L bytes = Inr JNull)"
    using left right by blast
  from iff router miss no_json show ?thesis by (intro conjI) blast+
qed

lemma demo_null_result:
  "get_artifact demo_lib (make_client (artifact_net ''zip:null'') ''o'' ''r'' ''t'') 5
     ''gatekeeper-final-analysis'' = Inr JNull"
proof -
  have h3: "JInt 12 \<noteq> JNull" by simp
  have h4: "download_zip demo_lib (artifact_client ''zip:null'') (JInt 12)
              = Inr (archive bundle_null)"
    by (simp add: demo_download demo_open_null)
  have h5: "select_entry (namelist (archive bundle_null)) = Some ''analysis/result.json''"
    by (simp add: select_entry_def json_candidates_def archive_def bundle_null_def endswith_def)
  have h6: "read_entry (archive bundle_null) ''analysis/result.json'' = Inr ''null''"
    by (simp add: archive_def bundle_null_def)
  have h7: "json_loads demo_lib ''null'' = Inr JNull"
    by (simp add: demo_lib_def demo_loads_def doc_gatekeeper_def doc_council_def)
  from get_artifact_selected[OF demo_listing demo_find h3 h4 h5 h6 h7]
  show ?thesis by (simp add: merge_cast_impact_null artifact_client_def)
qed

theorem get_artifact_none_iff_null_document_witness:
  "(\<exists>artifacts artifact_id available zf entry bytes.
       artifact_listing (make_client (artifact_net ''zip:null'') ''o'' ''r'' ''t'') 5 = Inr artifacts
     \<and> find_artifact ''gatekeeper-final-analysis'' artifacts [] = Inr (artifact_id, available)
     \<and> artifact_id \<noteq> JNull
     \<and> download_zip demo_lib (make_client (artifact_net ''zip:null'') ''o'' ''r'' ''t'') artifact_id
         = Inr zf
     \<and> select_entry (namelist zf) = Some entry
     \<and> read_entry zf entry = Inr bytes
     \<and> json_loads demo_lib bytes = Inr JNull)
   \<and> get_run_artifact demo_lib (artifact_net ''zip:null'') 5 ''o'' ''r'' ''t''
       ''gatekeeper-final-analysis'' = HTTPException 404 (JStr ''Artifact not found'')"
  using demo_null_result
    get_artifact_none_iff_null_document
      [of demo_lib "artifact_net ''zip:null''" "''o''" "''r''" "''t''" 5 "''gatekeeper-final-analysis''"]
  by blast

text \<open>
  C10 as stated fails: for an artifact whose only JSON entry holds the document \<open>null\<close>,
  \<open>get_artifact\<close> returns \<open>None\<close> and the endpoint takes the branch that raises 404
  \<open>Artifact not found\<close>.
\<close>

theorem get_artifact_none_counterexample:
  "get_artifact demo_lib (make_client (artifact_net ''zip:null'') ''o'' ''r'' ''t'') 5
     ''gatekeeper-final-analysis'' = Inr JNull
   \<and> get_run_artifact demo_lib (artifact_net ''zip:null'') 5 ''o'' ''r'' ''t''
       ''gatekeeper-final-analysis'' = HTTPException 404 (JStr ''Artifact not found'')"
  by (simp add: demo_null_result get_run_artifact_def)

section \<open>Session fetch\<close>

lemma fetch_loop_Cons_cases:
  assumes "fetch_loop cl (s # ss) sd tr = Inr r"
  obtains (skip) "session_id_of s = None" and "fetch_loop cl ss sd tr = Inr r"
  | (fetch) kvs sid k where "s = JObj kvs" and "session_id_of s = Some sid"
      and "hash_key sid = Inr k"
      and "fetch_loop cl ss
             (AList.update k (JObj (dict_set ''events'' (fetch_session_events cl sid) kvs)) sd)
             (tr @ [sid]) = Inr r"
proof -
  from assms obtain sid where get: "py_get s ''sessionId'' JNull = Inr sid"
    and rest: "(if \<not> py_truthy sid then fetch_loop cl ss sd tr
       else let events = fetch_session_events cl sid in
         ebind (with_events s events) (\<lambda>rec.
         ebind (hash_key sid) (\<lambda>k.
         fetch_loop cl ss (AList.update k rec sd) (tr @ [sid])))) = Inr r"
    by (auto simp: ebind_eq_Inr)
  from get obtain kvs where s: "s = JObj kvs" by (cases s) auto
  show thesis
  proof (cases "py_truthy sid")
    case False
    with get rest show thesis by (intro skip) (simp_all add: session_id_of_def)
  next
    case True
    with rest s obtain k where "hash_key sid = Inr k"
      and "fetch_loop cl ss
             (AList.update k (JObj (dict_set ''events'' (fetch_session_events cl sid) kvs)) sd)
             (tr @ [sid]) = Inr r"
      by (auto simp: ebind_eq_Inr Let_def)
    with True get s show thesis by (intro fetch) (simp_all add: session_id_of_def)
  qed
qed

lemma fetch_loop_fetch:
  assumes "session_id_of (JObj kvs) = Some sid" and "hash_key sid = Inr k"
  shows "fetch_loop cl (JObj kvs # ss) sd tr
           = fetch_loop cl ss
               (AList.update k (JObj (dict_set ''events'' (fetch_session_events cl sid) kvs)) sd)
               (tr @ [sid])"
  using assms by (auto simp: session_id_of_def Let_def split: if_splits)

lemma session_id_of_None_skip:
  assumes "session_id_of (JObj kvs) = None"
  shows "fetch_loop cl (JObj kvs # ss) sd tr = fetch_loop cl ss sd tr"
  using assms by (auto simp: session_id_of_def split: if_splits)

text \<open>The ids events are fetched for are the ids of the sessions that have one, in order.\<close>

lemma fetch_loop_trace:
  assumes "fetch_loop cl ss sd tr = Inr (d, f)"
  shows "f = tr @ List.map_filter session_id_of ss"
  using assms
proof (induction ss arbitrary: sd tr)
  case Nil
  then show ?case by (simp add: map_filter_simps)
next
  case (Cons s ss)
  from Cons.prems show ?case
  proof (cases rule: fetch_loop_Cons_cases)
    case skip
    with Cons.IH[OF skip(2)] show ?thesis by (simp add: map_filter_simps)
  next
    case (fetch kvs sid k)
    with Cons.IH[OF fetch(4)] show ?thesis by (simp add: map_filter_simps)
  qed
qed

text \<open>Sessions without an id can be dropped from the list: the loop gives the same result.\<close>

lemma fetch_loop_filter:
  assumes "fetch_loop cl ss sd tr = Inr r"
  shows "fetch_loop cl (filter (\<lambda>s. session_id_of s \<noteq> None) ss) sd tr = Inr r"
  using assms
proof (induction ss arbitrary: sd tr)
  case Nil
  then show ?case by simp
next
  case (Cons s ss)
  from Cons.prems show ?case
  proof (cases rule: fetch_loop_Cons_cases)
    case skip
    with Cons.IH[OF skip(2)] show ?thesis by simp
  next
    case (fetch kvs sid k)
    from Cons.IH[OF fetch(4)] fetch(1,2,3) show ?thesis
      by (simp add: fetch_loop_fetch del: fetch_loop.simps)
  qed
qed

text \<open>Every record of the result was there at the start or is a session with its events.\<close>

lemma fetch_loop_record:
  assumes "fetch_loop cl ss sd tr = Inr (d, f)" and "map_of d k = Some rec"
  shows "map_of sd k = Some rec
         \<or> (\<exists>kvs sid. JObj kvs \<in> set ss \<and> session_id_of (JObj kvs) = Some sid
               \<and> hash_key sid = Inr k
               \<and> rec = JObj (dict_set ''events'' (fetch_session_events cl sid) kvs))"
  using assms
proof (induction ss arbitrary: sd tr)
  case Nil
  then show ?case by simp
next
  case (Cons s ss)
  from Cons.prems(1) show ?case
  proof (cases rule: fetch_loop_Cons_cases)
    case skip
    from Cons.IH[OF skip(2) Cons.prems(2)] show ?thesis by auto
  next
    case (fetch kvs sid k')
    from Cons.IH[OF fetch(4) Cons.prems(2)]
    consider (old) "map_of (AList.update k'
                      (JObj (dict_set ''events'' (fetch_session_events cl sid) kvs)) sd) k = Some rec"
      | (later) "\<exists>kvs sid. JObj kvs \<in> set ss \<and> session_id_of (JObj kvs) = Some sid
               \<and> hash_key sid = Inr k
               \<and> rec = JObj (dict_set ''events'' (fetch_session_events cl sid) kvs)"
      by blast
    then show ?thesis
    proof cases
      case old
      show ?thesis
      proof (cases "k = k'")
        case True
        with old have "rec = JObj (dict_set ''events'' (fetch_session_events cl sid) kvs)"
          by (simp add: update_conv')
        with fetch(1,2,3) True show ?thesis by auto
      next
        case False
        with old have "map_of sd k = Some rec" by (simp add: update_conv')
        then show ?thesis by simp
      qed
    next
      case later
      then show ?thesis by auto
    qed
  qed
qed

text \<open>The keys of the result: the keys at the start and the keys of the ids fetched.\<close>

lemma fetch_loop_keys:
  assumes "fetch_loop cl ss sd tr = Inr (d, f)"
    and "sid \<in> set (List.map_filter session_id_of ss)"
  shows "\<exists>k rec. hash_key sid = Inr k \<and> map_of d k = Some rec"
  using assms
proof (induction ss arbitrary: sd tr)
  case Nil
  then show ?case by (simp add: map_filter_simps)
next
  case (Cons s ss)
  have keep: "\<exists>rec. map_of d k = Some rec"
    if "fetch_loop cl ss sd' tr' = Inr (d, f)" and "map_of sd' k = Some rec'"
    for sd' tr' k rec' and ss :: "json list"
    using that
  proof (induction ss arbitrary: sd' tr' rec')
    case Nil
    then show ?case by simp
  next
    case (Cons s ss)
    from Cons.prems(1) show ?case
    proof (cases rule: fetch_loop_Cons_cases)
      case skip
      from Cons.IH[OF skip(2) Cons.prems(2)] show ?thesis .
    next
      case (fetch kvs sid k')
      have "\<exists>r. map_of (AList.update k'
                 (JObj (dict_set ''events'' (fetch_session_events cl sid) kvs)) sd') k = Some r"
        using Cons.prems(2) by (simp add: update_conv')
      then obtain r where "map_of (AList.update k'
                 (JObj (dict_set ''events'' (fetch_session_events cl sid) kvs)) sd') k = Some r" ..
      from Cons.IH[OF fetch(4) this] show ?thesis .
    qed
  qed
  from Cons.prems(1) show ?case
  proof (cases rule: fetch_loop_Cons_cases)
    case skip
    with Cons.prems(2) have "sid \<in> set (List.map_filter session_id_of ss)"
      by (simp add: map_filter_simps)
    from Cons.IH[OF skip(2) this] show ?thesis .
  next
    case (fetch kvs sid' k')
    show ?thesis
    proof (cases "sid = sid'")
      case True
      have "map_of (AList.update k'
              (JObj (dict_set ''events'' (fetch_session_events cl sid') kvs)) sd) k'
            = Some (JObj (dict_set ''events'' (fetch_session_events cl sid') kvs))"
        by (simp add: update_conv')
      from keep[OF fetch(4) this] True fetch(3) show ?thesis by auto
    next
      case False
      with Cons.prems(2) fetch(2) have "sid \<in> set (List.map_filter session_id_of ss)"
        by (simp add: map_filter_simps)
      from Cons.IH[OF fetch(4) this] show ?thesis .
    qed
  qed
qed

text \<open>Two services that answer alike for every id but those stored under one key give
  results that agree at every other key, and the same trace.\<close>

lemma fetch_loop_agree:
  assumes "fetch_loop cl ss sd tr = Inr (d, f)"
    and "\<forall>other. hash_key other \<noteq> Inr k0
           \<longrightarrow> fetch_session_events cl' other = fetch_session_events cl other"
    and "\<forall>k. k \<noteq> k0 \<longrightarrow> map_of sd' k = map_of sd k"
  shows "\<exists>d'. fetch_loop cl' ss sd' tr = Inr (d', f) \<and> (\<forall>k. k \<noteq> k0 \<longrightarrow> map_of d' k = map_of d k)"
  using assms(1,3)
proof (induction ss arbitrary: sd sd' tr)
  case Nil
  then show ?case by simp
next
  case (Cons s ss)
  from Cons.prems(1) show ?case
  proof (cases rule: fetch_loop_Cons_cases)
    case skip
    from skip(1) Cons.prems(1) obtain kvs where s: "s = JObj kvs"
      by (cases s) (auto simp: ebind_eq_Inr)
    from Cons.IH[OF skip(2) Cons.prems(2)] skip(1) s show ?thesis
      by (simp add: session_id_of_None_skip del: fetch_loop.simps)
  next
    case (fetch kvs sid k)
    let ?rec = "\<lambda>c. JObj (dict_set ''events'' (fetch_session_events c sid) kvs)"
    have "\<forall>k'. k' \<noteq> k0 \<longrightarrow>
            map_of (AList.update k (?rec cl') sd') k' = map_of (AList.update k (?rec cl) sd) k'"
    proof (intro allI impI)
      fix k' assume ne: "k' \<noteq> k0"
      show "map_of (AList.update k (?rec cl') sd') k' = map_of (AList.update k (?rec cl) sd) k'"
      proof (cases "k = k0")
        case True
        with ne Cons.prems(2) show ?thesis by (simp add: update_conv')
      next
        case False
        with fetch(3) have "hash_key sid \<noteq> Inr k0" by simp
        with assms(2) have "fetch_session_events cl' sid = fetch_session_events cl sid" by blast
        with ne Cons.prems(2) show ?thesis by (simp add: update_conv')
      qed
    qed
    from Cons.IH[OF fetch(4) this] fetch(1,2,3) show ?thesis
      by (simp add: fetch_loop_fetch del: fetch_loop.simps)
  qed
qed

lemma hash_key_JStr: "hash_key other = Inr (JStr x) \<longleftrightarrow> other = JStr x"
  by (cases other) auto

lemma fetch_session_events_failed:
  assumes "resume_session cl sid \<noteq> None \<or> (\<exists>e. get_messages cl sid = Inl e)"
  shows "fetch_session_events cl sid = JArr []"
  using assms by (auto simp: fetch_session_events_def split: option.splits)

lemma fetch_session_events_cong:
  assumes "resume_session cl' sid = resume_session cl sid"
    and "get_messages cl' sid = get_messages cl sid"
  shows "fetch_session_events cl' sid = fetch_session_events cl sid"
  unfolding fetch_session_events_def assms by (rule refl)

text \<open>What a successful fetch went through.\<close>

lemma fetch_copilot_sessions_Inr:
  "fetch_copilot_sessions L sdk token limit fetch_all = Inr (selected, d, f) \<longleftrightarrow>
     start (sdk token) = None \<and> stop (sdk token) = None
     \<and> (\<exists>listed. fetch_sessions L (sdk token) = Inr listed
           \<and> selected = select_sessions listed limit fetch_all
           \<and> fetch_loop (sdk token) selected [] [] = Inr (d, f))"
  by (auto simp: fetch_copilot_sessions_def Let_def ebind_eq_Inr split: option.splits)

lemma demo_sorted:
  "fetch_sessions demo_lib (demo_sdk t) = Inr [s_new, s_anon, s_old]"
  by (simp add: fetch_sessions_def demo_sdk_def demo_lib_def demo_sort_def
      s_new_def s_old_def s_anon_def)

lemma healthy_sorted:
  "fetch_sessions demo_lib (healthy_sdk t) = Inr [s_new, s_anon, s_old]"
  by (simp add: fetch_sessions_def healthy_sdk_def demo_sdk_def demo_lib_def demo_sort_def
      s_new_def s_old_def s_anon_def)

lemma demo_loop:
  "fetch_loop (demo_sdk t) [s_new, s_anon, s_old] [] []
     = Inr (demo_data, [JStr ''s-new'', JStr ''s-old''])"
  by (simp add: demo_sdk_def s_new_def s_old_def s_anon_def fetch_session_events_def
      dict_set_def demo_data_def)

lemma demo_fetch:
  "fetch_copilot_sessions demo_lib demo_sdk ''t'' 50 False
     = Inr ([s_new, s_anon, s_old], demo_data, [JStr ''s-new'', JStr ''s-old''])"
proof -
  have "select_sessions [s_new, s_anon, s_old] 50 False = [s_new, s_anon, s_old]"
    by (simp add: select_sessions_def py_slice_to_def)
  moreover have "start (demo_sdk ''t'') = None" "stop (demo_sdk ''t'') = None"
    by (simp_all add: demo_sdk_def)
  ultimately show ?thesis
    by (simp add: fetch_copilot_sessions_Inr demo_sorted demo_loop del: fetch_loop.simps)
qed

lemma demo_fetch_zero:
  "fetch_copilot_sessions demo_lib demo_sdk ''t'' 0 False
     = Inr ([s_new, s_anon, s_old], demo_data, [JStr ''s-new'', JStr ''s-old''])"
proof -
  have "select_sessions [s_new, s_anon, s_old] 0 False = [s_new, s_anon, s_old]"
    by (simp add: select_sessions_def)
  moreover have "start (demo_sdk ''t'') = None" "stop (demo_sdk ''t'') = None"
    by (simp_all add: demo_sdk_def)
  ultimately show ?thesis
    by (simp add: fetch_copilot_sessions_Inr demo_sorted demo_loop del: fetch_loop.simps)
qed

text \<open>
  C6 at the limit 0. With the flag false and the limit 0, all three sessions of the
  service come back and events are fetched for both sessions that have an id: \<open>cap\<close> is 0,
  which the test \<open>if cap\<close> takes for no cap at all.
\<close>

theorem fetch_limit_zero_returns_all:
  "fetch_copilot_sessions demo_lib demo_sdk ''t'' 0 False
     = Inr ([s_new, s_anon, s_old], demo_data, [JStr ''s-new'', JStr ''s-old''])
   \<and> \<not> length [s_new, s_anon, s_old] \<le> nat 0
   \<and> \<not> length [JStr ''s-new'', JStr ''s-old''] \<le> nat 0"
  by (simp add: demo_fetch_zero)

text \<open>For every other limit that is not negative the selection is a prefix of that length,
  and with the flag set it is the whole list.\<close>

lemma select_sessions_positive:
  assumes "0 < limit"
  shows "select_sessions listed limit False = take (nat limit) listed"
  using assms by (simp add: select_sessions_def py_slice_to_def)

lemma select_sessions_all: "select_sessions listed limit True = listed"
  by (simp add: select_sessions_def)

lemma length_map_filter_le: "length (List.map_filter g xs) \<le> length xs"
  by (induction xs) (simp_all split: option.splits)

lemma fetch_positive_limit_truncates:
  assumes "fetch_copilot_sessions L sdk token limit False = Inr (selected, d, f)"
    and "0 < limit"
  shows "length selected \<le> nat limit \<and> length f \<le> nat limit"
proof -
  from assms(1) obtain listed where
    sel: "selected = select_sessions listed limit False"
    and loop: "fetch_loop (sdk token) selected [] [] = Inr (d, f)"
    unfolding fetch_copilot_sessions_Inr by blast
  from sel assms(2) have len: "length selected \<le> nat limit"
    by (simp add: select_sessions_positive)
  from fetch_loop_trace[OF loop] have "length f \<le> length selected"
    by (simp add: length_map_filter_le)
  with len show ?thesis by simp
qed

text \<open>
  C7. Take a fetch that returns against a service \<open>sdk'\<close> (one where the events of every
  session can be fetched, say), and a service \<open>sdk\<close> that answers as \<open>sdk'\<close> does except
  for one selected session with a string id, whose event fetch raises (in
  \<open>resume_session\<close> or in the \<open>session.getMessages\<close> request). Then the fetch against
  \<open>sdk\<close> returns as well, with the same list and the same fetches made; the record stored
  under that id has the empty event list; and the records under all other ids are those of
  the fetch against \<open>sdk'\<close>.
\<close>

theorem failing_event_fetch_is_local:
  assumes "fetch_copilot_sessions L sdk' token limit fetch_all = Inr (selected, d', f)"
    and "JStr sid \<in> set f"
    and "resume_session (sdk token) (JStr sid) \<noteq> None
           \<or> (\<exists>e. get_messages (sdk token) (JStr sid) = Inl e)"
    and "start (sdk token) = start (sdk' token)"
    and "session_list (sdk token) = session_list (sdk' token)"
    and "stop (sdk token) = stop (sdk' token)"
    and "\<forall>other. other \<noteq> JStr sid \<longrightarrow>
           resume_session (sdk token) other = resume_session (sdk' token) other
           \<and> get_messages (sdk token) other = get_messages (sdk' token) other"
  shows "\<exists>d. fetch_copilot_sessions L sdk token limit fetch_all = Inr (selected, d, f)
           \<and> (\<exists>rec. map_of d (JStr sid) = Some rec \<and> py_index rec ''events'' = Inr (JArr []))
           \<and> (\<forall>k. k \<noteq> JStr sid \<longrightarrow> map_of d k = map_of d' k)"
proof -
  from assms(1) obtain listed where
    st: "start (sdk' token) = None" "stop (sdk' token) = None"
    and listed: "fetch_sessions L (sdk' token) = Inr listed"
    and sel: "selected = select_sessions listed limit fetch_all"
    and loop': "fetch_loop (sdk' token) selected [] [] = Inr (d', f)"
    unfolding fetch_copilot_sessions_Inr by blast
  have same_events: "\<forall>other. hash_key other \<noteq> Inr (JStr sid) \<longrightarrow>
      fetch_session_events (sdk token) other = fetch_session_events (sdk' token) other"
    using assms(7) by (auto simp: hash_key_JStr intro: fetch_session_events_cong)
  have "\<forall>k. k \<noteq> JStr sid \<longrightarrow> map_of ([] :: (json \<times> json) list) k = map_of [] k" by simp
  from fetch_loop_agree[OF loop' same_events this] obtain d where
    loop: "fetch_loop (sdk token) selected [] [] = Inr (d, f)"
    and agree: "\<forall>k. k \<noteq> JStr sid \<longrightarrow> map_of d k = map_of d' k"
    by blast
  have "fetch_sessions L (sdk token) = fetch_sessions L (sdk' token)"
    by (simp add: fetch_sessions_def assms(5))
  with listed st sel loop assms(4,6)
  have returns: "fetch_copilot_sessions L sdk token limit fetch_all = Inr (selected, d, f)"
    unfolding fetch_copilot_sessions_Inr by simp
  have empty: "fetch_session_events (sdk token) (JStr sid) = JArr []"
    using assms(3) by (rule fetch_session_events_failed)
  from fetch_loop_trace[OF loop] assms(2)
  have "JStr sid \<in> set (List.map_filter session_id_of selected)" by simp
  from fetch_loop_keys[OF loop this] obtain rec where rec: "map_of d (JStr sid) = Some rec"
    by auto
  from fetch_loop_record[OF loop rec] obtain kvs other where
    "hash_key other = Inr (JStr sid)"
    and "rec = JObj (dict_set ''events'' (fetch_session_events (sdk token) other) kvs)"
    by auto
  with empty have "py_index rec ''events'' = Inr (JArr [])"
    by (simp add: hash_key_JStr dict_set_lookup)
  with rec returns agree show ?thesis by blast
qed

lemma healthy_loop:
  "fetch_loop (healthy_sdk t) [s_new, s_anon, s_old] [] []
     = Inr (healthy_data, [JStr ''s-new'', JStr ''s-old''])"
  by (simp add: healthy_sdk_def demo_sdk_def s_new_def s_old_def s_anon_def
      fetch_session_events_def dict_set_def healthy_data_def)

lemma healthy_fetch:
  "fetch_copilot_sessions demo_lib healthy_sdk ''t'' 50 False
     = Inr ([s_new, s_anon, s_old], healthy_data, [JStr ''s-new'', JStr ''s-old''])"
proof -
  have "select_sessions [s_new, s_anon, s_old] 50 False = [s_new, s_anon, s_old]"
    by (simp add: select_sessions_def py_slice_to_def)
  moreover have "start (healthy_sdk ''t'') = None" "stop (healthy_sdk ''t'') = None"
    by (simp_all add: healthy_sdk_def demo_sdk_def)
  ultimately show ?thesis
    by (simp add: fetch_copilot_sessions_Inr healthy_sorted healthy_loop del: fetch_loop.simps)
qed

theorem failing_event_fetch_is_local_witness:
  "\<exists>d. fetch_copilot_sessions demo_lib demo_sdk ''t'' 50 False
          = Inr ([s_new, s_anon, s_old], d, [JStr ''s-new'', JStr ''s-old''])
       \<and> (\<exists>rec. map_of d (JStr ''s-old'') = Some rec \<and> py_index rec ''events'' = Inr (JArr []))
       \<and> (\<forall>k. k \<noteq> JStr ''s-old'' \<longrightarrow> map_of d k = map_of healthy_data k)"
proof -
  have h2: "JStr ''s-old'' \<in> set [JStr ''s-new'', JStr ''s-old'']" by simp
  have h3: "resume_session (demo_sdk ''t'') (JStr ''s-old'') \<noteq> None
              \<or> (\<exists>e. get_messages (demo_sdk ''t'') (JStr ''s-old'') = Inl e)"
    by (simp add: demo_sdk_def)
  have h4: "start (demo_sdk ''t'') = start (healthy_sdk ''t'')"
    and h5: "session_list (demo_sdk ''t'') = session_list (healthy_sdk ''t'')"
    and h6: "stop (demo_sdk ''t'') = stop (healthy_sdk ''t'')"
    by (simp_all add: healthy_sdk_def)
  have h7: "\<forall>other. other \<noteq> JStr ''s-old'' \<longrightarrow>
           resume_session (demo_sdk ''t'') other = resume_session (healthy_sdk ''t'') other
           \<and> get_messages (demo_sdk ''t'') other = get_messages (healthy_sdk ''t'') other"
    by (simp add: healthy_sdk_def demo_sdk_def)
  show ?thesis
    by (rule failing_event_fetch_is_local
          [where sdk = demo_sdk and sdk' = healthy_sdk and token = "''t''",
           OF healthy_fetch h2 h3 h4 h5 h6 h7])
qed

text \<open>
  C8. Events are fetched exactly for the ids of the returned sessions that have one, in
  order; every record of the mapping is a returned session that has an id, stored under that
  id with its events; dropping the sessions without an id from the returned list gives the
  same mapping and the same fetches. The returned list itself is the selection from the
  sorted listing, whether a session has an id or not.
\<close>

theorem sessions_without_id_are_skipped:
  assumes "fetch_copilot_sessions L sdk token limit fetch_all = Inr (selected, d, f)"
  shows "f = List.map_filter session_id_of selected
         \<and> (\<forall>k rec. map_of d k = Some rec \<longrightarrow>
               (\<exists>kvs sid. JObj kvs \<in> set selected \<and> session_id_of (JObj kvs) = Some sid
                  \<and> hash_key sid = Inr k
                  \<and> rec = JObj (dict_set ''events'' (fetch_session_events (sdk token) sid) kvs)))
         \<and> fetch_loop (sdk token) (filter (\<lambda>s. session_id_of s \<noteq> None) selected) [] [] = Inr (d, f)
         \<and> (\<exists>listed. fetch_sessions L (sdk token) = Inr listed
               \<and> selected = select_sessions listed limit fetch_all)"
proof -
  from assms obtain listed where
    listed: "fetch_sessions L (sdk token) = Inr listed"
    and sel: "selected = select_sessions listed limit fetch_all"
    and loop: "fetch_loop (sdk token) selected [] [] = Inr (d, f)"
    unfolding fetch_copilot_sessions_Inr by blast
  have "f = List.map_filter session_id_of selected"
    using fetch_loop_trace[OF loop] by simp
  moreover have "\<exists>kvs sid. JObj kvs \<in> set selected \<and> session_id_of (JObj kvs) = Some sid
                  \<and> hash_key sid = Inr k
                  \<and> rec = JObj (dict_set ''events'' (fetch_session_events (sdk token) sid) kvs)"
    if "map_of d k = Some rec" for k rec
    using fetch_loop_record[OF loop that] by simp
  moreover note fetch_loop_filter[OF loop]
  ultimately show ?thesis using listed sel by blast
qed

theorem sessions_without_id_are_skipped_witness:
  "session_id_of s_anon = None
   \<and> s_anon \<in> set [s_new, s_anon, s_old]
   \<and> [JStr ''s-new'', JStr ''s-old''] = List.map_filter session_id_of [s_new, s_anon, s_old]
   \<and> fetch_loop (demo_sdk ''t'') (filter (\<lambda>s. session_id_of s \<noteq> None) [s_new, s_anon, s_old]) [] []
       = Inr (demo_data, [JStr ''s-new'', JStr ''s-old''])
   \<and> map fst demo_data = [JStr ''s-new'', JStr ''s-old'']"
proof -
  have "session_id_of s_anon = None" by (simp add: session_id_of_def s_anon_def)
  moreover have "map fst demo_data = [JStr ''s-new'', JStr ''s-old'']"
    by (simp add: demo_data_def)
  ultimately show ?thesis
    using sessions_without_id_are_skipped [OF demo_fetch] by simp
qed

text \<open>
  C9. The endpoint leaves the store as it was when the fetch raises, and answers 500; when
  the fetch returns, the store holds the returned list and the returned mapping.
\<close>

theorem fetch_endpoint_replaces_store_on_success_only:
  "(\<forall>exc. fetch_copilot_sessions L sdk token limit fetch_all = Inl exc \<longrightarrow>
      snd (fetch_sessions_endpoint L sdk store token limit fetch_all) = store
      \<and> http_status (fst (fetch_sessions_endpoint L sdk store token limit fetch_all)) = 500)
   \<and> (\<forall>selected d f. fetch_copilot_sessions L sdk token limit fetch_all = Inr (selected, d, f) \<longrightarrow>
      snd (fetch_sessions_endpoint L sdk store token limit fetch_all)
        = \<lparr>st_sessions = selected, st_session_data = d\<rparr>
      \<and> http_status (fst (fetch_sessions_endpoint L sdk store token limit fetch_all)) = 200)"
  by (simp add: fetch_sessions_endpoint_def)

lemma failing_fetch:
  "fetch_copilot_sessions demo_lib failing_sdk ''tok'' 50 False
     = Inl (Exc (LibraryError ''JsonRpcError'') ''bad credentials for tok'')"
  by (simp add: fetch_copilot_sessions_def failing_sdk_def demo_sdk_def fetch_sessions_def)

theorem fetch_endpoint_replaces_store_on_success_only_witness:
  "snd (fetch_sessions_endpoint demo_lib failing_sdk
          \<lparr>st_sessions = [s_new], st_session_data = []\<rparr> ''tok'' 50 False)
     = \<lparr>st_sessions = [s_new], st_session_data = []\<rparr>
   \<and> snd (fetch_sessions_endpoint demo_lib demo_sdk initial_store ''t'' 50 False)
     = \<lparr>st_sessions = [s_new, s_anon, s_old], st_session_data = demo_data\<rparr>"
  using failing_fetch demo_fetch
    fetch_endpoint_replaces_store_on_success_only
      [of demo_lib failing_sdk "''tok''" 50 False "\<lparr>st_sessions = [s_new], st_session_data = []\<rparr>"]
    fetch_endpoint_replaces_store_on_success_only
      [of demo_lib demo_sdk "''t''" 50 False initial_store]
  by blast

section \<open>Status codes\<close>

lemma is_substring_append: "is_substring k (a @ k @ b)"
proof -
  have "length a \<in> set [0..<Suc (length (a @ k @ b))]" by simp
  moreover have "startswith (drop (length a) (a @ k @ b)) k" by (simp add: startswith_def)
  ultimately show ?thesis unfolding is_substring_def list_ex_iff by blast
qed

lemma hint_names_scopes:
  "is_substring ''Classic PATs need 'repo' scope'' msg_access_denied"
  "is_substring ''fine-grained PATs need 'Actions: Read' and 'Contents: Read' permissions''
     msg_access_denied"
proof -
  have first: "msg_access_denied =
          ''Access denied (403). Your token may lack the required scope. ''
          @ ''Classic PATs need 'repo' scope'' @ ''; fine-grained PATs need ''
          @ '''Actions: Read' and 'Contents: Read' permissions for this repository.''"
    by (simp add: msg_access_denied_def)
  show "is_substring ''Classic PATs need 'repo' scope'' msg_access_denied"
    unfolding first by (rule is_substring_append)
  have second: "msg_access_denied =
          ''Access denied (403). Your token may lack the required scope. Classic PATs need 'repo' scope; ''
          @ ''fine-grained PATs need 'Actions: Read' and 'Contents: Read' permissions''
          @ '' for this repository.''"
    by (simp add: msg_access_denied_def)
  show "is_substring
      ''fine-grained PATs need 'Actions: Read' and 'Contents: Read' permissions'' msg_access_denied"
    unfolding second by (rule is_substring_append)
qed

lemma messages_differ: "msg_invalid_token \<noteq> msg_access_denied"
  by (simp add: msg_invalid_token_def msg_access_denied_def)

lemma get_json_status:
  assumes "http_get c \<lparr>path = p, params = ps, follow_redirects = False\<rparr> = Inr r"
  shows "status_code r = 401 \<Longrightarrow> get_json c p ps = Inl (Exc PermissionError msg_invalid_token)"
    and "status_code r = 403 \<Longrightarrow> get_json c p ps = Inl (Exc PermissionError msg_access_denied)"
    and "status_code r = 404 \<Longrightarrow> get_json c p ps = Inl (Exc LookupError msg_repo_not_found)"
  using assms by (simp_all add: get_json_def)

lemma connect_of_failure:
  assumes "parse_github_url L url = Inr (own, rep)"
    and "validate (make_client net own rep token) = Inl exc"
  shows "connect L net url token =
           (if isinstance exc PermissionError then HTTPException 403 (JStr (exc_str exc))
            else if isinstance exc LookupError then HTTPException 404 (JStr (exc_str exc))
            else HTTPException 401 (JStr (''GitHub API error: '' @ exc_str exc)))"
  using assms by (simp add: connect_def)

lemma validate_request:
  "validate (make_client net own rep token)
     = get_json (make_client net own rep token) (''/repos/'' @ own @ ''/'' @ rep) None"
  by (simp add: validate_def repo_prefix_def make_client_def)

lemma download_zip_unclassified:
  assumes "http_get c \<lparr>path = repo_prefix c @ ''/actions/artifacts/'' @ format_value L artifact_id
                              @ ''/zip'',
                       params = None, follow_redirects = True\<rparr> = Inr resp"
    and "raise_for_status resp = Some exc"
  shows "download_zip L c artifact_id = Inl exc"
  using assms by (simp add: download_zip_def)

text \<open>
  C4 (as the code has it). In every request made through \<open>_get_json\<close> (the validation of
  the repository and the listings of workflows, runs and artifacts) an upstream 401 and an
  upstream 403 both raise \<open>PermissionError\<close>, with different messages, the second naming the
  scopes a token needs, and a 404 raises \<open>LookupError\<close>. The download of the archive is not
  made through \<open>_get_json\<close>: whatever the status code, it fails with what
  \<open>raise_for_status\<close> raises. The endpoint \<open>connect\<close> answers 403 to a \<open>PermissionError\<close>
  (so to an upstream 401 as well as 403), 404 to a \<open>LookupError\<close>, 401 to every other
  failure of the validation, and 400 to a URL that \<open>parse_github_url\<close> rejects. The artifact
  endpoint catches nothing of what \<open>get_artifact\<close> raises, which the framework answers
  with 500.
\<close>

theorem status_errors_and_connect_mapping:
  "(http_get c \<lparr>path = p, params = ps, follow_redirects = False\<rparr> = Inr r \<longrightarrow>
       (status_code r = 401 \<longrightarrow> get_json c p ps = Inl (Exc PermissionError msg_invalid_token))
     \<and> (status_code r = 403 \<longrightarrow> get_json c p ps = Inl (Exc PermissionError msg_access_denied))
     \<and> (status_code r = 404 \<longrightarrow> get_json c p ps = Inl (Exc LookupError msg_repo_not_found)))
   \<and> msg_invalid_token \<noteq> msg_access_denied
   \<and> is_substring ''Classic PATs need 'repo' scope'' msg_access_denied
   \<and> is_substring ''fine-grained PATs need 'Actions: Read' and 'Contents: Read' permissions''
        msg_access_denied
   \<and> (\<forall>resp exc.
          http_get c \<lparr>path = repo_prefix c @ ''/actions/artifacts/'' @ format_value L artifact_id
                              @ ''/zip'',
                       params = None, follow_redirects = True\<rparr> = Inr resp
        \<and> raise_for_status resp = Some exc \<longrightarrow>
        download_zip L c artifact_id = Inl exc)
   \<and> (parse_github_url L url = Inr (own, rep) \<longrightarrow>
        (\<forall>exc. validate (make_client net own rep token) = Inl exc \<longrightarrow>
           connect L net url token =
             (if isinstance exc PermissionError then HTTPException 403 (JStr (exc_str exc))
              else if isinstance exc LookupError then HTTPException 404 (JStr (exc_str exc))
              else HTTPException 401 (JStr (''GitHub API error: '' @ exc_str exc))))
        \<and> (\<forall>resp. net token \<lparr>path = ''/repos/'' @ own @ ''/'' @ rep, params = None,
                              follow_redirects = False\<rparr> = Inr resp \<longrightarrow>
             (status_code resp = 401 \<longrightarrow> http_status (connect L net url token) = 403)
           \<and> (status_code resp = 403 \<longrightarrow> http_status (connect L net url token) = 403)
           \<and> (status_code resp = 404 \<longrightarrow> http_status (connect L net url token) = 404)))
   \<and> (\<forall>exc. parse_github_url L url = Inl exc \<longrightarrow>
        connect L net url token = HTTPException 400 (JStr (exc_str exc)))
   \<and> (\<forall>exc. get_artifact L (make_client net own rep token) run_id artifact_name = Inl exc \<longrightarrow>
        get_run_artifact L net run_id own rep token artifact_name = Unhandled exc
        \<and> http_status (get_run_artifact L net run_id own rep token artifact_name) = 500)"
proof -
  have upstream: "http_status (connect L net url token) = (if status_code resp = 404 then 404 else 403)"
    if parsed: "parse_github_url L url = Inr (own, rep)"
      and resp: "net token \<lparr>path = ''/repos/'' @ own @ ''/'' @ rep, params = None,
                            follow_redirects = False\<rparr> = Inr resp"
      and code: "status_code resp = 401 \<or> status_code resp = 403 \<or> status_code resp = 404"
    for resp
  proof -
    have sent: "http_get (make_client net own rep token)
                  \<lparr>path = ''/repos/'' @ own @ ''/'' @ rep, params = None, follow_redirects = False\<rparr>
                = Inr resp"
      using resp by (simp add: make_client_def)
    from code consider "status_code resp = 401" | "status_code resp = 403" | "status_code resp = 404"
      by blast
    then show ?thesis
    proof cases
      case 1
      from get_json_status(1)[OF sent 1] connect_of_failure[OF parsed] 1 show ?thesis
        by (simp add: validate_request)
    next
      case 2
      from get_json_status(2)[OF sent 2] connect_of_failure[OF parsed] 2 show ?thesis
        by (simp add: validate_request)
    next
      case 3
      from get_json_status(3)[OF sent 3] connect_of_failure[OF parsed] 3 show ?thesis
        by (simp add: validate_request)
    qed
  qed
  have malformed: "connect L net url token = HTTPException 400 (JStr (exc_str exc))"
    if "parse_github_url L url = Inl exc" for exc
    using that by (simp add: connect_def)
  have escaped: "get_run_artifact L net run_id own rep token artifact_name = Unhandled exc"
    if "get_artifact L (make_client net own rep token) run_id artifact_name = Inl exc" for exc
    using that by (simp add: get_run_artifact_def)
  have download: "download_zip L c artifact_id = Inl exc"
    if "http_get c \<lparr>path = repo_prefix c @ ''/actions/artifacts/'' @ format_value L artifact_id
                              @ ''/zip'',
                       params = None, follow_redirects = True\<rparr> = Inr resp
        \<and> raise_for_status resp = Some exc" for resp exc
    using that download_zip_unclassified by blast
  show ?thesis
    using get_json_status[of c p ps r] messages_differ hint_names_scopes
      connect_of_failure[of L url own rep net token] upstream malformed escaped download
    by (intro conjI impI allI) simp_all
qed

lemma parse_demo_url: "parse_github_url demo_lib ''https://github.com/o/r'' = Inr (''o'', ''r'')"
  by (simp add: parse_github_url_def demo_lib_def demo_strip_def ascii_space_def startswith_def
      url_char_def Let_def)

lemma status_net_request:
  "status_net code ''t'' \<lparr>path = ''/repos/'' @ ''o'' @ ''/'' @ ''r'', params = None,
                           follow_redirects = False\<rparr> = Inr (status_response code)"
  by (simp add: status_net_def)

lemma status_net_download:
  "download_zip demo_lib (make_client (status_net code) ''o'' ''r'' ''t'') (JInt 12)
     = Inl (Exc (LibraryError ''httpx.HTTPStatusError'') ''error response'')"
  by (simp add: download_zip_def make_client_def status_net_def status_response_def)

theorem status_errors_and_connect_mapping_witness:
  "http_status (connect demo_lib (status_net 401) ''https://github.com/o/r'' ''t'') = 403
   \<and> http_status (connect demo_lib (status_net 403) ''https://github.com/o/r'' ''t'') = 403
   \<and> http_status (connect demo_lib (status_net 404) ''https://github.com/o/r'' ''t'') = 404"
proof -
  have codes: "status_code (status_response 401) = 401" "status_code (status_response 403) = 403"
    "status_code (status_response 404) = 404"
    by (simp_all add: status_response_def)
  from status_errors_and_connect_mapping
         [where L = demo_lib and url = "''https://github.com/o/r''" and own = "''o''"
            and rep = "''r''" and net = "status_net 401" and token = "''t''"]
    parse_demo_url status_net_request[of 401] codes(1)
  have "http_status (connect demo_lib (status_net 401) ''https://github.com/o/r'' ''t'') = 403"
    by blast
  moreover
  from status_errors_and_connect_mapping
         [where L = demo_lib and url = "''https://github.com/o/r''" and own = "''o''"
            and rep = "''r''" and net = "status_net 403" and token = "''t''"]
    parse_demo_url status_net_request[of 403] codes(2)
  have "http_status (connect demo_lib (status_net 403) ''https://github.com/o/r'' ''t'') = 403"
    by blast
  moreover
  from status_errors_and_connect_mapping
         [where L = demo_lib and url = "''https://github.com/o/r''" and own = "''o''"
            and rep = "''r''" and net = "status_net 404" and token = "''t''"]
    parse_demo_url status_net_request[of 404] codes(3)
  have "http_status (connect demo_lib (status_net 404) ''https://github.com/o/r'' ''t'') = 404"
    by blast
  ultimately show ?thesis by blast
qed

text \<open>
  C4 as stated fails: an upstream that answers 401 makes \<open>connect\<close> answer 403, with the
  same exception class as for an upstream 403; an upstream failure of no class the client
  names (a 500 here) makes \<open>connect\<close> answer 401; and a 401 answered to the download of the
  archive raises the transport's own error, neither \<open>PermissionError\<close> nor \<open>LookupError\<close>.
\<close>

theorem connect_status_counterexample:
  "validate (make_client (status_net 401) ''o'' ''r'' ''t'')
     = Inl (Exc PermissionError msg_invalid_token)
   \<and> validate (make_client (status_net 403) ''o'' ''r'' ''t'')
     = Inl (Exc PermissionError msg_access_denied)
   \<and> connect demo_lib (status_net 401) ''https://github.com/o/r'' ''t''
     = HTTPException 403 (JStr msg_invalid_token)
   \<and> connect demo_lib (status_net 500) ''https://github.com/o/r'' ''t''
     = HTTPException 401 (JStr ''GitHub API error: error response'')
   \<and> download_zip demo_lib (make_client (status_net 401) ''o'' ''r'' ''t'') (JInt 12)
     = Inl (Exc (LibraryError ''httpx.HTTPStatusError'') ''error response'')"
  by (simp add: connect_def parse_demo_url validate_def get_json_def make_client_def
      status_net_def status_response_def status_net_download[unfolded make_client_def])

end
